theory Spec2Isabelle
  imports Complex_Main
begin

section \<open>Python values and exceptions\<close>

text \<open>
  The module under study is \<^verbatim>\<open>distill_utils.py\<close>. Exceptions are values: a function that can
  raise returns \<open>error + 'a\<close>, with \<open>Inl\<close> for the exception. The constructors are the Python
  exception classes the module and the library calls it makes can raise; the string is the
  message. Where numpy would continue with an infinite float, which the model of floats
  below cannot hold, the run is cut off with \<open>NonFinite\<close>: that constructor is a boundary
  of the model, not a Python exception.
\<close>

datatype error =
    ValueError string
  | TypeError string
  | KeyError string
  | IndexError string
  | OverflowError string
  | ZeroDivisionError string
  | NonFinite string

section \<open>Floats\<close>

text \<open>
  A Python float is an IEEE 754 binary64 number. A finite float is held as the real number
  it denotes, and every arithmetic operation of the code on floats is the exact operation
  followed by \<open>fl\<close>, the rounding to the nearest number with a significand of 53 bits,
  ties going to the even significand. The exponent is not bounded: overflow to infinity
  and the loss of precision of subnormal results are outside the model. NaN is modelled
  where the code can meet it (the missing cell of a frame, a NaN in the configuration).

  \<open>pow2 k\<close> is \<open>2\<^sup>k\<close> for an integer \<open>k\<close>; \<open>expo x\<close> is the exponent of \<open>x\<close>, the \<open>e\<close> with
  \<open>2\<^sup>e \<le> |x| < 2\<^sup>e\<^sup>+\<^sup>1\<close>; the floats with that exponent are the multiples of
  \<open>2\<^sup>e\<^sup>-\<^sup>5\<^sup>2\<close>.
\<close>

definition pow2 :: "int \<Rightarrow> real" where
  "pow2 k = (if 0 \<le> k then 2 ^ nat k else 1 / 2 ^ nat (- k))"

definition round_even :: "real \<Rightarrow> int" where
  "round_even z =
     (let f = \<lfloor>z\<rfloor>; d = z - of_int f
      in if d < 1 / 2 then f else if 1 / 2 < d then f + 1 else if even f then f else f + 1)"

definition expo :: "real \<Rightarrow> int" where
  "expo x = \<lfloor>log 2 \<bar>x\<bar>\<rfloor>"

definition fl :: "real \<Rightarrow> real" where
  "fl x = (if x = 0 then 0
           else of_int (round_even (x / pow2 (expo x - 52))) * pow2 (expo x - 52))"

text \<open>\<^verbatim>\<open>float(i)\<close>, the conversion of an integer, rounds too.\<close>

definition float_of_int :: "int \<Rightarrow> real" where
  "float_of_int i = fl (of_int i)"

section \<open>Label transformer\<close>

text \<open>
  Modelled from the spec: the module \<^verbatim>\<open>..constants\<close> that defines \<^verbatim>\<open>BINARY\<close>,
  \<^verbatim>\<open>MULTICLASS\<close>, \<^verbatim>\<open>REGRESSION\<close> and \<^verbatim>\<open>SOFTCLASS\<close> is not part of the sources; the
  four problem types are taken as four distinct tags.
\<close>

datatype problem_type = BINARY | MULTICLASS | REGRESSION | SOFTCLASS

text \<open>
  A label object is a pandas Series of integers or of floats. The multiclass branch returns
  a table (a DataFrame built from a two-dimensional array of floats).
\<close>

datatype series = IntSeries "int list" | FloatSeries "real list"

datatype labels = Labels series | Table "real list list"

text \<open>The values of a series as floats, as arithmetic with a float makes them.\<close>

fun to_float :: "series \<Rightarrow> real list" where
  "to_float (IntSeries xs) = map float_of_int xs"
| "to_float (FloatSeries xs) = xs"

text \<open>
  \<^verbatim>\<open>np.zeros((size, num_classes))\<close>: the shape entries must be integers, and not negative.
\<close>

fun np_zeros :: "nat \<Rightarrow> int option \<Rightarrow> error + real list list" where
  "np_zeros n None = Inl (TypeError ''NoneType object cannot be interpreted as an integer'')"
| "np_zeros n (Some k) =
     (if k < 0 then Inl (ValueError ''negative dimensions are not allowed'')
      else Inr (replicate n (replicate (nat k) 0)))"

text \<open>
  \<^verbatim>\<open>y[np.arange(size), y_int] = 1\<close>: row \<open>i\<close> gets a one at column \<open>y_int[i]\<close>. The index array
  must hold integers; an index \<open>c\<close> is in bounds for a row of width \<open>k\<close> when \<open>-k \<le> c < k\<close>, a
  negative one counting from the end.
\<close>

fun set_ones :: "real list list \<Rightarrow> int list \<Rightarrow> error + real list list" where
  "set_ones (r # rs) (c # cs) =
     (let k = int (length r); j = (if c < 0 then k + c else c)
      in if 0 \<le> j \<and> j < k
         then (case set_ones rs cs of Inl e \<Rightarrow> Inl e | Inr rs' \<Rightarrow> Inr (r[nat j := 1] # rs'))
         else Inl (IndexError ''index is out of bounds for axis 1''))"
| "set_ones rs cs = Inr rs"

fun one_hot :: "series \<Rightarrow> int option \<Rightarrow> error + labels" where
  "one_hot (IntSeries y_int) num_classes =
     (case np_zeros (length y_int) num_classes of
        Inl e \<Rightarrow> Inl e
      | Inr z \<Rightarrow> (case set_ones z y_int of Inl e \<Rightarrow> Inl e | Inr t \<Rightarrow> Inr (Table t)))"
| "one_hot (FloatSeries y) num_classes =
     (case np_zeros (length y) num_classes of
        Inl e \<Rightarrow> Inl e
      | Inr z \<Rightarrow> Inl (IndexError ''arrays used as indices must be of integer (or boolean) type''))"

text \<open>
  The binary branch, elementwise on the series:
  \<^verbatim>\<open>eps_labelsmooth + ((1-2*eps_labelsmooth)/(max_pred-min_pred)) * (y - min_pred)\<close>
  with \<^verbatim>\<open>min_pred = 0.0\<close> and \<^verbatim>\<open>max_pred = 1.0\<close>. Each of the six operations rounds.
\<close>

definition min_pred :: real where "min_pred = 0"

definition max_pred :: real where "max_pred = 1"

definition smooth :: "real \<Rightarrow> real \<Rightarrow> real" where
  "smooth eps_labelsmooth y =
     fl (eps_labelsmooth
         + fl (fl (fl (1 - fl (2 * eps_labelsmooth)) / fl (max_pred - min_pred))
               * fl (y - min_pred)))"

text \<open>The default \<^verbatim>\<open>eps_labelsmooth=0.01\<close> is the float nearest to one hundredth.\<close>

definition eps_labelsmooth_default :: real where "eps_labelsmooth_default = fl (1 / 100)"

fun format_distillation_labels ::
  "series \<Rightarrow> series \<Rightarrow> problem_type \<Rightarrow> int option \<Rightarrow> real \<Rightarrow> error + (labels \<times> labels)" where
  "format_distillation_labels y_train y_test MULTICLASS num_classes eps_labelsmooth =
     (case one_hot y_train num_classes of
        Inl e \<Rightarrow> Inl e
      | Inr y_train' \<Rightarrow>
          (case one_hot y_test num_classes of
             Inl e \<Rightarrow> Inl e
           | Inr y_test' \<Rightarrow> Inr (y_train', y_test')))"
| "format_distillation_labels y_train y_test BINARY num_classes eps_labelsmooth =
     Inr (Labels (FloatSeries (map (smooth eps_labelsmooth) (to_float y_train))),
          Labels (FloatSeries (map (smooth eps_labelsmooth) (to_float y_test))))"
| "format_distillation_labels y_train y_test problem_type num_classes eps_labelsmooth =
     Inr (Labels y_train, Labels y_test)"

section \<open>Numbers in the configuration\<close>

text \<open>
  A number held by the configuration dictionary: a Python int, a finite float, the float
  \<^verbatim>\<open>np.inf\<close> (the default of \<^verbatim>\<open>max_size\<close>) or a NaN (which \<^verbatim>\<open>inf * 0\<close> yields).
\<close>

datatype pynum = IntN int | FloatN real | InfN | NanN

fun finite_value :: "pynum \<Rightarrow> real option" where
  "finite_value (IntN i) = Some (of_int i)"
| "finite_value (FloatN r) = Some r"
| "finite_value InfN = None"
| "finite_value NanN = None"

text \<open>\<^verbatim>\<open>a < b\<close>: every comparison with a NaN is false.\<close>

fun py_lt :: "pynum \<Rightarrow> pynum \<Rightarrow> bool" where
  "py_lt NanN b = False"
| "py_lt a NanN = False"
| "py_lt InfN b = False"
| "py_lt a InfN = True"
| "py_lt (IntN i) (IntN j) = (i < j)"
| "py_lt (IntN i) (FloatN r) = (of_int i < r)"
| "py_lt (FloatN r) (IntN j) = (r < of_int j)"
| "py_lt (FloatN r) (FloatN q) = (r < q)"

text \<open>\<^verbatim>\<open>min(a, b)\<close> keeps its first argument unless the second is smaller.\<close>

definition py_min :: "pynum \<Rightarrow> pynum \<Rightarrow> pynum" where
  "py_min a b = (if py_lt b a then b else a)"

text \<open>
  \<^verbatim>\<open>x * len(...)\<close>, the right factor a length: an int stays an int, a float is multiplied
  by the length made a float, and the product rounds.
\<close>

fun mul_len :: "pynum \<Rightarrow> nat \<Rightarrow> pynum" where
  "mul_len (IntN i) n = IntN (i * int n)"
| "mul_len (FloatN r) n = FloatN (fl (r * float_of_int (int n)))"
| "mul_len InfN n = (if n = 0 then NanN else InfN)"
| "mul_len NanN n = NanN"

text \<open>\<^verbatim>\<open>int(x)\<close> truncates a float towards zero.\<close>

fun py_int :: "pynum \<Rightarrow> error + int" where
  "py_int (IntN i) = Inr i"
| "py_int (FloatN r) = Inr (if r < 0 then \<lceil>r\<rceil> else \<lfloor>r\<rfloor>)"
| "py_int InfN = Inl (OverflowError ''cannot convert float infinity to integer'')"
| "py_int NanN = Inl (ValueError ''cannot convert float NaN to integer'')"

section \<open>Data frames\<close>

text \<open>
  A pandas DataFrame: the column names in order, one dtype per column, the index labels and
  the rows. Three dtypes are told apart, and a cell is an integer, a float, a string or the
  missing value NaN. A frame is well formed when the names are distinct and every list has
  the length the shape asks for; pandas frames built by the code always are.
\<close>

datatype dtype = Int64 | Float64 | Object

datatype cell = IntC int | FloatC real | StrC string | NaN

record frame =
  columns :: "string list"
  dtypes :: "dtype list"
  index :: "int list"
  rows :: "cell list list"

definition wf_frame :: "frame \<Rightarrow> bool" where
  "wf_frame f \<longleftrightarrow>
     distinct (columns f) \<and> length (dtypes f) = length (columns f) \<and>
     length (index f) = length (rows f) \<and>
     list_all (\<lambda>r. length r = length (columns f)) (rows f)"

text \<open>\<^verbatim>\<open>len(X)\<close> is the number of rows.\<close>

definition len :: "frame \<Rightarrow> nat" where
  "len f = length (rows f)"

fun find_pos :: "string list \<Rightarrow> string \<Rightarrow> nat option" where
  "find_pos [] c = None"
| "find_pos (x # xs) c = (if x = c then Some 0 else map_option Suc (find_pos xs c))"

definition cell_at :: "cell list \<Rightarrow> nat \<Rightarrow> cell" where
  "cell_at r p = (if p < length r then r ! p else NaN)"

definition dtype_at :: "dtype list \<Rightarrow> nat \<Rightarrow> dtype" where
  "dtype_at ds p = (if p < length ds then ds ! p else Object)"

text \<open>\<^verbatim>\<open>X[name]\<close>: the column as a series (its dtype and its cells), or a KeyError.\<close>

definition get_column :: "frame \<Rightarrow> string \<Rightarrow> error + (dtype \<times> cell list)" where
  "get_column f name =
     (case find_pos (columns f) name of
        None \<Rightarrow> Inl (KeyError name)
      | Some p \<Rightarrow> Inr (dtype_at (dtypes f) p, map (\<lambda>r. cell_at r p) (rows f)))"

text \<open>
  \<^verbatim>\<open>X[name] = series\<close>, the series having one cell per row of \<open>X\<close>: an existing column is
  replaced where it stands, a new one is added at the end.
\<close>

definition set_column :: "frame \<Rightarrow> string \<Rightarrow> dtype \<Rightarrow> cell list \<Rightarrow> frame" where
  "set_column f name d cs =
     (case find_pos (columns f) name of
        Some p \<Rightarrow>
          f\<lparr>dtypes := (dtypes f)[p := d],
            rows := map (\<lambda>(r, c). r[p := c]) (zip (rows f) cs)\<rparr>
      | None \<Rightarrow>
          f\<lparr>columns := columns f @ [name],
            dtypes := dtypes f @ [d],
            rows := map (\<lambda>(r, c). r @ [c]) (zip (rows f) cs)\<rparr>)"

text \<open>\<^verbatim>\<open>X.iloc[[0]]\<close>: the frame of the first row alone.\<close>

definition iloc_first :: "frame \<Rightarrow> error + frame" where
  "iloc_first f =
     (case rows f of
        [] \<Rightarrow> Inl (IndexError ''positional indexers are out-of-bounds'')
      | r # _ \<Rightarrow> Inr (f\<lparr>index := take 1 (index f), rows := [r]\<rparr>))"

text \<open>\<^verbatim>\<open>X.iloc[i]\<close> for \<open>i \<ge> 0\<close>: the row as a series over the column names.\<close>

definition iloc_row :: "frame \<Rightarrow> nat \<Rightarrow> error + cell list" where
  "iloc_row f i =
     (if i < len f then Inr (rows f ! i)
      else Inl (IndexError ''single positional indexer is out-of-bounds''))"

text \<open>\<^verbatim>\<open>X.iloc[i] = series\<close>, the series over the same column names as \<open>X\<close>.\<close>

definition set_row :: "frame \<Rightarrow> nat \<Rightarrow> cell list \<Rightarrow> error + frame" where
  "set_row f i r =
     (if i < len f then Inr (f\<lparr>rows := (rows f)[i := r]\<rparr>)
      else Inl (IndexError ''iloc cannot enlarge its target object''))"

text \<open>\<^verbatim>\<open>series[name] = v\<close> on a row series over the names \<open>cols\<close>.\<close>

definition set_item :: "string list \<Rightarrow> cell list \<Rightarrow> string \<Rightarrow> cell \<Rightarrow> cell list" where
  "set_item cols r name v =
     (case find_pos cols name of Some p \<Rightarrow> r[p := v] | None \<Rightarrow> r @ [v])"

definition get_item :: "string list \<Rightarrow> cell list \<Rightarrow> string \<Rightarrow> error + cell" where
  "get_item cols r name =
     (case find_pos cols name of Some p \<Rightarrow> Inr (cell_at r p) | None \<Rightarrow> Inl (KeyError name))"

text \<open>\<^verbatim>\<open>X.reset_index(drop=True)\<close>: the index becomes 0, 1, ..., len - 1.\<close>

definition reset_index :: "frame \<Rightarrow> frame" where
  "reset_index f = f\<lparr>index := map int [0 ..< len f]\<rparr>"

text \<open>
  \<^verbatim>\<open>X.tail(n)\<close>: the last \<open>n\<close> rows; no row when \<open>n = 0\<close>; all but the first \<open>-n\<close> rows when
  \<open>n\<close> is negative.
\<close>

definition tail :: "frame \<Rightarrow> int \<Rightarrow> frame" where
  "tail f n =
     (let d = (if n < 0 then nat (- n) else len f - nat n)
      in f\<lparr>index := drop d (index f), rows := drop d (rows f)\<rparr>)"

text \<open>
  \<^verbatim>\<open>pd.concat([a, b])\<close> stacks the rows of \<open>b\<close> under those of \<open>a\<close>. The columns are those of
  \<open>a\<close>, followed by the columns only \<open>b\<close> has; a frame that lacks a column gets NaN there.
  The dtype of a column is the common dtype of the frames that hold it: equal dtypes are
  kept, int64 with float64 gives float64, anything else object; an int64 column that a
  frame lacks becomes float64, since it must hold NaN. The special treatment pandas gives to
  empty and to all-NaN blocks is not modelled.
\<close>

fun promote :: "dtype \<Rightarrow> dtype \<Rightarrow> dtype" where
  "promote Int64 Int64 = Int64"
| "promote Int64 Float64 = Float64"
| "promote Float64 Int64 = Float64"
| "promote Float64 Float64 = Float64"
| "promote a b = Object"

fun with_na :: "dtype \<Rightarrow> dtype" where
  "with_na Int64 = Float64"
| "with_na d = d"

definition concat_dtype :: "frame \<Rightarrow> frame \<Rightarrow> string \<Rightarrow> dtype" where
  "concat_dtype a b c =
     (case (find_pos (columns a) c, find_pos (columns b) c) of
        (Some p, Some q) \<Rightarrow> promote (dtype_at (dtypes a) p) (dtype_at (dtypes b) q)
      | (Some p, None) \<Rightarrow> with_na (dtype_at (dtypes a) p)
      | (None, Some q) \<Rightarrow> with_na (dtype_at (dtypes b) q)
      | (None, None) \<Rightarrow> Object)"

fun coerce :: "dtype \<Rightarrow> cell \<Rightarrow> cell" where
  "coerce Float64 (IntC i) = FloatC (float_of_int i)"
| "coerce d c = c"

definition reindex_row :: "frame \<Rightarrow> string list \<Rightarrow> dtype list \<Rightarrow> cell list \<Rightarrow> cell list" where
  "reindex_row f cols ds r =
     map (\<lambda>(c, d). coerce d (case find_pos (columns f) c of
                                Some p \<Rightarrow> cell_at r p | None \<Rightarrow> NaN)) (zip cols ds)"

definition concat2 :: "frame \<Rightarrow> frame \<Rightarrow> frame" where
  "concat2 a b =
     (let cols = columns a @ filter (\<lambda>c. c \<notin> set (columns a)) (columns b);
          ds = map (concat_dtype a b) cols
      in \<lparr>columns = cols, dtypes = ds, index = index a @ index b,
          rows = map (reindex_row a cols ds) (rows a) @ map (reindex_row b cols ds) (rows b)\<rparr>)"

text \<open>\<^verbatim>\<open>pd.concat(frames)\<close>: an empty list of frames is refused.\<close>

fun concat_frames :: "frame list \<Rightarrow> error + frame" where
  "concat_frames [] = Inl (ValueError ''No objects to concatenate'')"
| "concat_frames (f # fs) = Inr (foldl concat2 f fs)"

text \<open>\<^verbatim>\<open>[x] * n\<close>: the list repeated; the factor must be an int, and a negative one gives \<open>[]\<close>.\<close>

fun list_times :: "'a \<Rightarrow> pynum \<Rightarrow> error + 'a list" where
  "list_times x (IntN n) = Inr (replicate (nat n) x)"
| "list_times x k = Inl (TypeError ''cannot multiply sequence by non-int of type float'')"

text \<open>\<^verbatim>\<open>range(n)\<close> for such a factor: the number of iterations.\<close>

fun range_len :: "pynum \<Rightarrow> nat" where
  "range_len (IntN n) = nat n"
| "range_len k = 0"

section \<open>The store, the random generator and the external services\<close>

text \<open>
  Frames and dictionaries are objects that the code shares and updates in place, so they
  live in a store and are passed by reference: a reference is a position in the list of
  frames (or of dictionaries), and an allocation appends. The state also carries the
  process-wide random generator and the list of calls made to the external services, in
  the order they were made.
\<close>

datatype event = Vectorize | KNeighbors

type_synonym ref = nat

type_synonym feature_types = "string \<Rightarrow> string list option"

type_synonym dict = "string \<Rightarrow> pynum option"

record 'g state =
  heap :: "frame list"
  dicts :: "dict list"
  gen :: 'g
  calls :: "event list"

text \<open>
  What the module takes from outside. \<open>vectorize\<close> is the encoding of the rows as numeric
  vectors by the throwaway \<^verbatim>\<open>TabularNeuralNetModel\<close>; \<open>kneighbors\<close> is
  \<^verbatim>\<open>NearestNeighbors(n_neighbors=2)\<close>, fitted on the vectors and queried with them, which
  gives for each row the positions of its two nearest rows; \<open>float_of_string\<close> is Python's
  parsing of a float; \<open>np_nanstd\<close> is \<^verbatim>\<open>np.nanstd\<close>, the standard deviation of the cells
  that are not NaN, which is NaN (here \<open>None\<close>) when there is none. The random generator of
  numpy is a source of naturals, of normal variates of a given scale and of binomial
  counts; every draw returns the next generator state.
\<close>

record 'g env =
  vectorize :: "frame \<Rightarrow> feature_types \<Rightarrow> error + real list list"
  kneighbors :: "real list list \<Rightarrow> error + (nat \<times> nat) list"
  float_of_string :: "string \<Rightarrow> real option"
  np_nanstd :: "cell list \<Rightarrow> error + real option"
  rand_nat :: "'g \<Rightarrow> nat \<times> 'g"
  rand_normal :: "real \<Rightarrow> 'g \<Rightarrow> real \<times> 'g"
  rand_binomial :: "nat \<Rightarrow> real \<Rightarrow> 'g \<Rightarrow> nat \<times> 'g"

definition alloc :: "frame \<Rightarrow> 'g state \<Rightarrow> ref \<times> 'g state" where
  "alloc f st = (length (heap st), st\<lparr>heap := heap st @ [f]\<rparr>)"

definition update_frame :: "ref \<Rightarrow> (frame \<Rightarrow> frame) \<Rightarrow> 'g state \<Rightarrow> 'g state" where
  "update_frame a h st = st\<lparr>heap := (heap st)[a := h (heap st ! a)]\<rparr>"

text \<open>
  \<open>keeps st0 st\<close>: everything the store held in \<open>st0\<close> is still there in \<open>st\<close>, unchanged
  and under the same reference; \<open>st\<close> may hold more frames.
\<close>

definition keeps :: "'g state \<Rightarrow> 'g state \<Rightarrow> bool" where
  "keeps st0 st \<longleftrightarrow>
     length (heap st0) \<le> length (heap st) \<and>
     take (length (heap st0)) (heap st) = heap st0 \<and>
     dicts st = dicts st0"

text \<open>A \<^verbatim>\<open>for\<close> loop whose body can raise: the first exception ends the loop.\<close>

fun for_each :: "('a \<Rightarrow> 's \<Rightarrow> 's \<times> (error + unit)) \<Rightarrow> 'a list \<Rightarrow> 's \<Rightarrow> 's \<times> (error + unit)" where
  "for_each body [] st = (st, Inr ())"
| "for_each body (x # xs) st =
     (case body x st of
        (st', Inl e) \<Rightarrow> (st', Inl e)
      | (st', Inr u) \<Rightarrow> for_each body xs st')"

subsection \<open>Random draws\<close>

text \<open>\<^verbatim>\<open>np.random.choice(range(1, n+1))\<close>, for \<open>n \<ge> 1\<close>.\<close>

definition choice_range :: "'g env \<Rightarrow> nat \<Rightarrow> 'g \<Rightarrow> nat \<times> 'g" where
  "choice_range env n g = (case rand_nat env g of (r, g') \<Rightarrow> (1 + r mod n, g'))"

text \<open>
  \<^verbatim>\<open>np.random.choice(names, size=k, replace=False)\<close> for \<open>k \<le> len(names)\<close>: \<open>k\<close> draws, each
  taking one of the names that are left.
\<close>

fun choice_names :: "'g env \<Rightarrow> string list \<Rightarrow> nat \<Rightarrow> 'g \<Rightarrow> string list \<times> 'g" where
  "choice_names env names 0 g = ([], g)"
| "choice_names env names (Suc k) g =
     (if names = [] then ([], g)
      else (case rand_nat env g of
              (r, g1) \<Rightarrow>
                (let p = r mod length names
                 in (case choice_names env (take p names @ drop (Suc p) names) k g1 of
                       (rest, g2) \<Rightarrow> (names ! p # rest, g2)))))"

text \<open>\<^verbatim>\<open>series.sample(n=1).values[0]\<close> on a series that is not empty.\<close>

definition sample_one :: "'g env \<Rightarrow> cell list \<Rightarrow> 'g \<Rightarrow> cell \<times> 'g" where
  "sample_one env cs g = (case rand_nat env g of (r, g') \<Rightarrow> (cs ! (r mod length cs), g'))"

text \<open>
  \<^verbatim>\<open>np.random.normal(scale=...)\<close>: a draw of the given scale, \<open>None\<close> being NaN. With a NaN
  scale the draw is made all the same, and the value is NaN. Then \<open>n\<close> such draws, and \<open>n\<close>
  binomial counts of at most \<open>m\<close>.
\<close>

definition draw_normal :: "'g env \<Rightarrow> real option \<Rightarrow> 'g \<Rightarrow> real option \<times> 'g" where
  "draw_normal env scale g =
     (case scale of
        Some sc \<Rightarrow> (case rand_normal env sc g of (v, g') \<Rightarrow> (Some v, g'))
      | None \<Rightarrow> (case rand_normal env 0 g of (v, g') \<Rightarrow> (None, g')))"

fun normal_list :: "'g env \<Rightarrow> real option \<Rightarrow> nat \<Rightarrow> 'g \<Rightarrow> real option list \<times> 'g" where
  "normal_list env scale 0 g = ([], g)"
| "normal_list env scale (Suc n) g =
     (case draw_normal env scale g of
        (z, g1) \<Rightarrow> (case normal_list env scale n g1 of (zs, g2) \<Rightarrow> (z # zs, g2)))"

fun binomial_list :: "'g env \<Rightarrow> nat \<Rightarrow> real \<Rightarrow> nat \<Rightarrow> 'g \<Rightarrow> nat list \<times> 'g" where
  "binomial_list env m p 0 g = ([], g)"
| "binomial_list env m p (Suc n) g =
     (case rand_binomial env m p g of
        (r, g1) \<Rightarrow> (case binomial_list env m p n g1 of (rs, g2) \<Rightarrow> (min m r # rs, g2)))"

text \<open>The probability argument of \<^verbatim>\<open>np.random.binomial\<close> must lie in \<open>[0, 1]\<close>.\<close>

fun prob_of :: "pynum \<Rightarrow> error + real" where
  "prob_of InfN = Inl (ValueError ''p > 1'')"
| "prob_of NanN = Inl (ValueError ''p is nan'')"
| "prob_of (IntN i) =
     (if i < 0 then Inl (ValueError ''p < 0'')
      else if 1 < i then Inl (ValueError ''p > 1'') else Inr (of_int i))"
| "prob_of (FloatN r) =
     (if r < 0 then Inl (ValueError ''p < 0'')
      else if 1 < r then Inl (ValueError ''p > 1'') else Inr r)"

section \<open>Shared parts of the two samplers\<close>

text \<open>
  \<^verbatim>\<open>continuous_types = ['float','int', 'datetime']\<close>; the continuous feature names are the
  lists the metadata holds for these types, one after the other.
\<close>

definition continuous_types :: "string list" where
  "continuous_types = [''float'', ''int'', ''datetime'']"

fun collect_featnames :: "feature_types \<Rightarrow> string list \<Rightarrow> string list" where
  "collect_featnames feature_types_metadata [] = []"
| "collect_featnames feature_types_metadata (contype # rest) =
     (case feature_types_metadata contype of
        Some names \<Rightarrow> names @ collect_featnames feature_types_metadata rest
      | None \<Rightarrow> collect_featnames feature_types_metadata rest)"

definition continuous_featnames_of :: "feature_types \<Rightarrow> string list" where
  "continuous_featnames_of feature_types_metadata =
     collect_featnames feature_types_metadata continuous_types"

text \<open>
  \<^verbatim>\<open>pd.concat([X.iloc[[0]].copy()]*num_augmented_samples)\<close>: the first row of \<open>X\<close>, repeated.
  The row is taken first, then the list is built, then the frames are stacked.
\<close>

definition initial_batch :: "frame \<Rightarrow> pynum \<Rightarrow> error + frame" where
  "initial_batch X num_augmented_samples =
     (case iloc_first X of
        Inl e \<Rightarrow> Inl e
      | Inr first \<Rightarrow>
          (case list_times first num_augmented_samples of
             Inl e \<Rightarrow> Inl e
           | Inr copies \<Rightarrow> concat_frames copies))"

section \<open>The fast sampler\<close>

text \<open>
  The inner loop of \<^verbatim>\<open>spunge_augment\<close>: for each chosen feature, the value of the row is
  replaced by a value drawn from the column of \<open>X\<close>.
  \<^verbatim>\<open>
  for feature in cols_toperturb:
      feature_data = X[feature]
      augdata_i[feature] = feature_data.sample(n=1).values[0]
  \<close>
\<close>

fun hot_deck ::
  "'g env \<Rightarrow> frame \<Rightarrow> string list \<Rightarrow> cell list \<Rightarrow> 'g \<Rightarrow> 'g \<times> (error + cell list)" where
  "hot_deck env X [] augdata_i g = (g, Inr augdata_i)"
| "hot_deck env X (feature # rest) augdata_i g =
     (case get_column X feature of
        Inl e \<Rightarrow> (g, Inl e)
      | Inr (d, feature_data) \<Rightarrow>
          (if feature_data = []
           then (g, Inl (ValueError ''Cannot take a larger sample than population''))
           else (case sample_one env feature_data g of
                   (v, g') \<Rightarrow> hot_deck env X rest (set_item (columns X) augdata_i feature v) g')))"

text \<open>
  One turn of the loop over the rows.
  \<^verbatim>\<open>
  og_ind = i % len(X)
  augdata_i = X.iloc[og_ind].copy()
  num_feature_perturb_i = np.random.choice(range(1,num_feature_perturb+1))
  cols_toperturb = np.random.choice(list(X.columns), size=num_feature_perturb_i, replace=False)
  ...
  X_aug.iloc[i] = augdata_i
  \<close>
  \<open>X\<close> and \<open>X_aug\<close> are references: the row is read from the frame \<open>X\<close> points to, and written
  into the frame \<open>X_aug\<close> points to.
\<close>

definition spunge_row ::
  "'g env \<Rightarrow> ref \<Rightarrow> ref \<Rightarrow> nat \<Rightarrow> nat \<Rightarrow> 'g state \<Rightarrow> 'g state \<times> (error + unit)" where
  "spunge_row env X X_aug num_feature_perturb i st =
     (let Xf = heap st ! X in
      if len Xf = 0 then (st, Inl (ZeroDivisionError ''integer division or modulo by zero''))
      else
        (case iloc_row Xf (i mod len Xf) of
           Inl e \<Rightarrow> (st, Inl e)
         | Inr augdata_i \<Rightarrow>
             (case choice_range env num_feature_perturb (gen st) of
                (num_feature_perturb_i, g1) \<Rightarrow>
                  (if length (columns Xf) < num_feature_perturb_i
                   then (st\<lparr>gen := g1\<rparr>,
                         Inl (ValueError ''Cannot take a larger sample than population''))
                   else
                     (case choice_names env (columns Xf) num_feature_perturb_i g1 of
                        (cols_toperturb, g2) \<Rightarrow>
                          (case hot_deck env Xf cols_toperturb augdata_i g2 of
                             (g3, Inl e) \<Rightarrow> (st\<lparr>gen := g3\<rparr>, Inl e)
                           | (g3, Inr augdata_i') \<Rightarrow>
                               (case set_row (heap st ! X_aug) i augdata_i' of
                                  Inl e \<Rightarrow> (st\<lparr>gen := g3\<rparr>, Inl e)
                                | Inr f \<Rightarrow>
                                    (st\<lparr>heap := (heap st)[X_aug := f], gen := g3\<rparr>,
                                     Inr ()))))))))"

text \<open>
  \<^verbatim>\<open>np.nanstd(feature_data)*continuous_feature_noise\<close>, \<open>None\<close> being NaN; the product
  rounds. An infinite factor gives an infinite scale (NaN on a zero deviation), which the
  model cannot hold.
\<close>

fun noise_scale :: "real option \<Rightarrow> pynum \<Rightarrow> error + real option" where
  "noise_scale None c = Inr None"
| "noise_scale (Some sd) (IntN i) = Inr (Some (fl (sd * float_of_int i)))"
| "noise_scale (Some sd) (FloatN r) = Inr (Some (fl (sd * r)))"
| "noise_scale (Some sd) InfN =
     (if sd = 0 then Inr None else Inl (NonFinite ''infinite noise scale''))"
| "noise_scale (Some sd) NanN = Inr None"

text \<open>
  \<^verbatim>\<open>aug_data + noise*mask\<close> on one cell, with the noise and the mask of its row: the noise
  (\<open>None\<close> being NaN) times the mask made a float, added to the cell made a float. Both
  operations round, and a NaN on either side makes the sum NaN.
\<close>

fun add_noise_cell :: "cell \<times> real option \<times> nat \<Rightarrow> error + cell" where
  "add_noise_cell (StrC s, z, m) = Inl (TypeError ''can only concatenate str to str'')"
| "add_noise_cell (NaN, z, m) = Inr NaN"
| "add_noise_cell (c, None, m) = Inr NaN"
| "add_noise_cell (IntC i, Some v, m) =
     Inr (FloatC (fl (float_of_int i + fl (v * float_of_int (int m)))))"
| "add_noise_cell (FloatC r, Some v, m) =
     Inr (FloatC (fl (r + fl (v * float_of_int (int m)))))"

fun map_err :: "('a \<Rightarrow> error + 'b) \<Rightarrow> 'a list \<Rightarrow> error + 'b list" where
  "map_err h [] = Inr []"
| "map_err h (x # xs) =
     (case h x of
        Inl e \<Rightarrow> Inl e
      | Inr y \<Rightarrow> (case map_err h xs of Inl e \<Rightarrow> Inl e | Inr ys \<Rightarrow> Inr (y # ys)))"

text \<open>
  One turn of the loop over the columns of \<open>X\<close>, which adds noise to a continuous column of
  the batch.
  \<^verbatim>\<open>
  if feature in continuous_featnames:
      feature_data = X[feature]
      aug_data = X_aug[feature]
      noise = np.random.normal(scale=np.nanstd(feature_data)*continuous_feature_noise, size=num_augmented_samples)
      mask = np.random.binomial(n=1, p=frac_perturb, size=num_augmented_samples)
      aug_data = aug_data + noise*mask
      X_aug[feature] = pd.Series(aug_data, index=X_aug.index)
  \<close>
\<close>

definition add_noise ::
  "'g env \<Rightarrow> ref \<Rightarrow> ref \<Rightarrow> string list \<Rightarrow> nat \<Rightarrow> pynum \<Rightarrow> pynum \<Rightarrow> string \<Rightarrow> 'g state
     \<Rightarrow> 'g state \<times> (error + unit)" where
  "add_noise env X X_aug continuous_featnames n frac_perturb continuous_feature_noise feature st =
     (if feature \<notin> set continuous_featnames then (st, Inr ())
      else
        (case get_column (heap st ! X) feature of
           Inl e \<Rightarrow> (st, Inl e)
         | Inr (d, feature_data) \<Rightarrow>
        (case get_column (heap st ! X_aug) feature of
           Inl e \<Rightarrow> (st, Inl e)
         | Inr (d', aug_data) \<Rightarrow>
        (case np_nanstd env feature_data of
           Inl e \<Rightarrow> (st, Inl e)
         | Inr sd \<Rightarrow>
        (case noise_scale sd continuous_feature_noise of
           Inl e \<Rightarrow> (st, Inl e)
         | Inr scale \<Rightarrow>
        (if (case scale of Some sc \<Rightarrow> sc < 0 | None \<Rightarrow> False)
         then (st, Inl (ValueError ''scale < 0''))
         else
        (case normal_list env scale n (gen st) of
           (noise, g1) \<Rightarrow>
        (case prob_of frac_perturb of
           Inl e \<Rightarrow> (st\<lparr>gen := g1\<rparr>, Inl e)
         | Inr p \<Rightarrow>
        (case binomial_list env 1 p n g1 of
           (noise_mask, g2) \<Rightarrow>
        (case map_err add_noise_cell (zip aug_data (zip noise noise_mask)) of
           Inl e \<Rightarrow> (st\<lparr>gen := g2\<rparr>, Inl e)
         | Inr aug_data' \<Rightarrow>
             (st\<lparr>heap := (heap st)[X_aug := set_column (heap st ! X_aug) feature Float64 aug_data'],
                 gen := g2\<rparr>, Inr ())))))))))))"

text \<open>
  \<^verbatim>\<open>num_feature_perturb = max(1, int(frac_perturb*len(X.columns)))\<close>
\<close>

definition num_feature_perturb_of :: "pynum \<Rightarrow> nat \<Rightarrow> error + int" where
  "num_feature_perturb_of frac_perturb ncols =
     (case py_int (mul_len frac_perturb ncols) of
        Inl e \<Rightarrow> Inl e
      | Inr v \<Rightarrow> Inr (max 1 v))"

text \<open>
  \<^verbatim>\<open>spunge_augment(X, feature_types_metadata, num_augmented_samples, frac_perturb,
  continuous_feature_noise)\<close>. It returns the reference of the batch it has built. The
  defaults of the three numbers are given below.
\<close>

definition spunge_augment ::
  "'g env \<Rightarrow> 'g state \<Rightarrow> ref \<Rightarrow> feature_types \<Rightarrow> pynum \<Rightarrow> pynum \<Rightarrow> pynum
     \<Rightarrow> 'g state \<times> (error + ref)" where
  "spunge_augment env st X feature_types_metadata num_augmented_samples frac_perturb
       continuous_feature_noise =
     (if py_lt (FloatN 1) frac_perturb
      then (st, Inl (ValueError ''frac_perturb must be <= 1''))
      else
        (case num_feature_perturb_of frac_perturb (length (columns (heap st ! X))) of
           Inl e \<Rightarrow> (st, Inl e)
         | Inr num_feature_perturb \<Rightarrow>
        (case initial_batch (heap st ! X) num_augmented_samples of
           Inl e \<Rightarrow> (st, Inl e)
         | Inr batch \<Rightarrow>
        (case alloc batch st of
           (X_aug, st1) \<Rightarrow>
        (let st2 = update_frame X_aug reset_index st1;
             continuous_featnames = continuous_featnames_of feature_types_metadata;
             n = range_len num_augmented_samples
         in
        (case for_each (spunge_row env X X_aug (nat num_feature_perturb)) [0 ..< n] st2 of
           (st3, Inl e) \<Rightarrow> (st3, Inl e)
         | (st3, Inr u) \<Rightarrow>
        (case for_each
                (add_noise env X X_aug continuous_featnames n frac_perturb
                   continuous_feature_noise)
                (columns (heap st3 ! X)) st3 of
           (st4, Inl e) \<Rightarrow> (st4, Inl e)
         | (st4, Inr u) \<Rightarrow> (st4, Inr X_aug))))))))"

definition num_augmented_samples_default :: pynum where
  "num_augmented_samples_default = IntN 10000"

definition frac_perturb_default :: pynum where
  "frac_perturb_default = FloatN (fl (1 / 10))"

definition continuous_feature_noise_default :: pynum where
  "continuous_feature_noise_default = FloatN (fl (1 / 10))"

section \<open>The neighbor-guided sampler\<close>

text \<open>
  \<^verbatim>\<open>series.astype(float)\<close> on one cell; a string is parsed, and refused when it is not the
  text of a float.
\<close>

fun astype_float :: "'g env \<Rightarrow> cell \<Rightarrow> error + cell" where
  "astype_float env (IntC i) = Inr (FloatC (float_of_int i))"
| "astype_float env (FloatC r) = Inr (FloatC r)"
| "astype_float env NaN = Inr NaN"
| "astype_float env (StrC s) =
     (case float_of_string env s of
        Some r \<Rightarrow> Inr (FloatC r)
      | None \<Rightarrow> Inl (ValueError ''could not convert string to float''))"

text \<open>
  One turn of the loop that casts the continuous columns, first in the batch, then in the
  frame \<open>X\<close> refers to (which by then is the copy).
  \<^verbatim>\<open>
  X_aug[col] = X_aug[col].astype(float)
  X[col] = X[col].astype(float)
  \<close>
\<close>

definition cast_column :: "'g env \<Rightarrow> ref \<Rightarrow> string \<Rightarrow> 'g state \<Rightarrow> 'g state \<times> (error + unit)" where
  "cast_column env a col st =
     (case get_column (heap st ! a) col of
        Inl e \<Rightarrow> (st, Inl e)
      | Inr (d, cs) \<Rightarrow>
          (case map_err (astype_float env) cs of
             Inl e \<Rightarrow> (st, Inl e)
           | Inr cs' \<Rightarrow>
               (st\<lparr>heap := (heap st)[a := set_column (heap st ! a) col Float64 cs']\<rparr>, Inr ())))"

definition cast_both :: "'g env \<Rightarrow> ref \<Rightarrow> ref \<Rightarrow> string \<Rightarrow> 'g state \<Rightarrow> 'g state \<times> (error + unit)" where
  "cast_both env X X_aug col st =
     (case cast_column env X_aug col st of
        (st1, Inl e) \<Rightarrow> (st1, Inl e)
      | (st1, Inr u) \<Rightarrow> cast_column env X col st1)"

text \<open>
  The value a perturbed continuous feature gets:
  \<^verbatim>\<open>new_val += np.random.normal(scale=np.abs(augdata_i[col]-new_val)/s)\<close>.
  The difference, the quotient and the sum round. A NaN on either side makes the scale,
  and so the value, NaN. Dividing by \<open>s = 0\<close> gives NaN when the two values agree, and an
  infinite scale otherwise, which the model cannot hold. A negative scale is refused by
  numpy.
\<close>

fun cell_value :: "cell \<Rightarrow> error + real option" where
  "cell_value (IntC i) = Inr (Some (float_of_int i))"
| "cell_value (FloatC r) = Inr (Some r)"
| "cell_value NaN = Inr None"
| "cell_value (StrC s) = Inl (TypeError ''unsupported operand type for a string'')"

fun distance_scale :: "real \<Rightarrow> pynum \<Rightarrow> error + real option" where
  "distance_scale d InfN = Inr (Some 0)"
| "distance_scale d NanN = Inr None"
| "distance_scale d (IntN i) =
     (if i = 0 then (if d = 0 then Inr None else Inl (NonFinite ''infinite noise scale''))
      else Inr (Some (fl (d / float_of_int i))))"
| "distance_scale d (FloatN r) =
     (if r = 0 then (if d = 0 then Inr None else Inl (NonFinite ''infinite noise scale''))
      else Inr (Some (fl (d / r))))"

definition neighbor_noise ::
  "'g env \<Rightarrow> pynum \<Rightarrow> cell \<Rightarrow> cell \<Rightarrow> 'g \<Rightarrow> 'g \<times> (error + cell)" where
  "neighbor_noise env s base new_val g =
     (case cell_value base of
        Inl e \<Rightarrow> (g, Inl e)
      | Inr a \<Rightarrow>
     (case cell_value new_val of
        Inl e \<Rightarrow> (g, Inl e)
      | Inr b \<Rightarrow>
     (case (a, b) of
        (Some x, Some y) \<Rightarrow>
          (case distance_scale \<bar>fl (x - y)\<bar> s of
             Inl e \<Rightarrow> (g, Inl e)
           | Inr None \<Rightarrow> (case draw_normal env None g of (v, g') \<Rightarrow> (g', Inr NaN))
           | Inr (Some sc) \<Rightarrow>
               (if sc < 0 then (g, Inl (ValueError ''scale < 0''))
                else (case rand_normal env sc g of (v, g') \<Rightarrow> (g', Inr (FloatC (fl (y + v)))))))
      | _ \<Rightarrow> (case draw_normal env None g of (v, g') \<Rightarrow> (g', Inr NaN)))))"

text \<open>
  The inner loop of \<^verbatim>\<open>munge_augment\<close>.
  \<^verbatim>\<open>
  for col in cols_toperturb:
      new_val = neighbor_i[col]
      if col in continuous_featnames:
          new_val += np.random.normal(scale=np.abs(augdata_i[col]-new_val)/s)
      augdata_i[col] = new_val
  \<close>
\<close>

fun perturb ::
  "'g env \<Rightarrow> string list \<Rightarrow> string list \<Rightarrow> pynum \<Rightarrow> cell list \<Rightarrow> string list \<Rightarrow> cell list \<Rightarrow> 'g
     \<Rightarrow> 'g \<times> (error + cell list)" where
  "perturb env cols continuous_featnames s neighbor_i [] augdata_i g = (g, Inr augdata_i)"
| "perturb env cols continuous_featnames s neighbor_i (col # rest) augdata_i g =
     (case get_item cols neighbor_i col of
        Inl e \<Rightarrow> (g, Inl e)
      | Inr new_val \<Rightarrow>
          (if col \<in> set continuous_featnames
           then
             (case get_item cols augdata_i col of
                Inl e \<Rightarrow> (g, Inl e)
              | Inr base \<Rightarrow>
                  (case neighbor_noise env s base new_val g of
                     (g', Inl e) \<Rightarrow> (g', Inl e)
                   | (g', Inr new_val') \<Rightarrow>
                       perturb env cols continuous_featnames s neighbor_i rest
                         (set_item cols augdata_i col new_val') g'))
           else perturb env cols continuous_featnames s neighbor_i rest
                  (set_item cols augdata_i col new_val) g))"

text \<open>
  One turn of the loop over the rows.
  \<^verbatim>\<open>
  og_ind = i % len(X)
  augdata_i = X.iloc[og_ind].copy()
  neighbor_i = X.iloc[neigh_ind[og_ind]].copy()
  cols_toperturb = np.random.choice(list(X.columns),
      size=np.random.binomial(X.shape[1], p=perturb_prob, size=1)[0], replace=False)
  ...
  X_aug.iloc[i] = augdata_i
  \<close>
\<close>

definition munge_row ::
  "'g env \<Rightarrow> ref \<Rightarrow> ref \<Rightarrow> nat list \<Rightarrow> string list \<Rightarrow> pynum \<Rightarrow> pynum \<Rightarrow> nat \<Rightarrow> 'g state
     \<Rightarrow> 'g state \<times> (error + unit)" where
  "munge_row env X X_aug neigh_ind continuous_featnames perturb_prob s i st =
     (let Xf = heap st ! X in
      if len Xf = 0 then (st, Inl (ZeroDivisionError ''integer division or modulo by zero''))
      else
        (let og_ind = i mod len Xf in
        (case iloc_row Xf og_ind of
           Inl e \<Rightarrow> (st, Inl e)
         | Inr augdata_i \<Rightarrow>
        (if length neigh_ind \<le> og_ind
         then (st, Inl (IndexError ''index is out of bounds for axis 0''))
         else
        (case iloc_row Xf (neigh_ind ! og_ind) of
           Inl e \<Rightarrow> (st, Inl e)
         | Inr neighbor_i \<Rightarrow>
        (case prob_of perturb_prob of
           Inl e \<Rightarrow> (st, Inl e)
         | Inr p \<Rightarrow>
        (case rand_binomial env (length (columns Xf)) p (gen st) of
           (r, g1) \<Rightarrow>
        (case choice_names env (columns Xf) (min (length (columns Xf)) r) g1 of
           (cols_toperturb, g2) \<Rightarrow>
        (case perturb env (columns Xf) continuous_featnames s neighbor_i cols_toperturb
                augdata_i g2 of
           (g3, Inl e) \<Rightarrow> (st\<lparr>gen := g3\<rparr>, Inl e)
         | (g3, Inr augdata_i') \<Rightarrow>
             (case set_row (heap st ! X_aug) i augdata_i' of
                Inl e \<Rightarrow> (st\<lparr>gen := g3\<rparr>, Inl e)
              | Inr f \<Rightarrow>
                  (st\<lparr>heap := (heap st)[X_aug := f], gen := g3\<rparr>, Inr ())))))))))))"

text \<open>
  \<^verbatim>\<open>munge_augment(X, feature_types_metadata, num_augmented_samples, perturb_prob, s)\<close>.
  The rows are encoded and the neighbors searched first; \<^verbatim>\<open>neigh_ind[:,1]\<close> keeps the second
  neighbor of each row. Then comes the test on \<^verbatim>\<open>perturb_prob\<close>, then \<^verbatim>\<open>X = X.copy()\<close>,
  after which the name \<open>X\<close> refers to the copy, and the batch is built.
\<close>

definition munge_augment ::
  "'g env \<Rightarrow> 'g state \<Rightarrow> ref \<Rightarrow> feature_types \<Rightarrow> pynum \<Rightarrow> pynum \<Rightarrow> pynum
     \<Rightarrow> 'g state \<times> (error + ref)" where
  "munge_augment env st0 X feature_types_metadata num_augmented_samples perturb_prob s =
     (let st = st0\<lparr>calls := calls st0 @ [Vectorize]\<rparr> in
     (case vectorize env (heap st ! X) feature_types_metadata of
        Inl e \<Rightarrow> (st, Inl e)
      | Inr X_vector \<Rightarrow>
     (let st' = st\<lparr>calls := calls st @ [KNeighbors]\<rparr> in
     (case kneighbors env X_vector of
        Inl e \<Rightarrow> (st', Inl e)
      | Inr neigh \<Rightarrow>
     (let neigh_ind = map snd neigh in
      if py_lt (FloatN 1) perturb_prob
      then (st', Inl (ValueError ''frac_perturb must be <= 1''))
      else
     (case alloc (heap st' ! X) st' of
        (X_copy, st1) \<Rightarrow>
     (case initial_batch (heap st1 ! X_copy) num_augmented_samples of
        Inl e \<Rightarrow> (st1, Inl e)
      | Inr batch \<Rightarrow>
     (case alloc batch st1 of
        (X_aug, st2) \<Rightarrow>
     (let st3 = update_frame X_aug reset_index st2;
          continuous_featnames = continuous_featnames_of feature_types_metadata
      in
     (case for_each (cast_both env X_copy X_aug) continuous_featnames st3 of
        (st4, Inl e) \<Rightarrow> (st4, Inl e)
      | (st4, Inr u) \<Rightarrow>
     (case for_each
             (munge_row env X_copy X_aug neigh_ind continuous_featnames perturb_prob s)
             [0 ..< range_len num_augmented_samples] st4 of
        (st5, Inl e) \<Rightarrow> (st5, Inl e)
      | (st5, Inr u) \<Rightarrow> (st5, Inr X_aug))))))))))))"

definition perturb_prob_default :: pynum where
  "perturb_prob_default = FloatN (1 / 2)"

definition s_default :: pynum where
  "s_default = FloatN 1"

section \<open>Post-processor and dispatcher\<close>

text \<open>
  \<^verbatim>\<open>
  X_aug = pd.concat([X, X_aug])
  X_aug = X_aug.tail(len(X_aug)-len(X))
  return X_aug.reset_index(drop=True, inplace=False)
  \<close>
  Each step builds a new frame; the one returned is allocated, and its reference returned.
\<close>

definition postprocess_frame :: "frame \<Rightarrow> frame \<Rightarrow> frame" where
  "postprocess_frame X_aug X =
     (let stacked = concat2 X X_aug;
          kept = tail stacked (int (len stacked) - int (len X))
      in reset_index kept)"

definition postprocess_augmented :: "'g state \<Rightarrow> ref \<Rightarrow> ref \<Rightarrow> 'g state \<times> ref" where
  "postprocess_augmented st X_aug X =
     (case alloc (postprocess_frame (heap st ! X_aug) (heap st ! X)) st of
        (r, st') \<Rightarrow> (st', r))"

text \<open>
  The derivation of the sample count, which writes into the dictionary it was given:
  \<^verbatim>\<open>
  if 'num_augmented_samples' not in augment_args:
      if 'max_size' not in augment_args:
          augment_args['max_size'] = np.inf
      augment_args['num_augmented_samples'] =
          int(min(augment_args['max_size'], augment_args['size_factor']*len(X_train)))
  \<close>
\<close>

definition set_key :: "ref \<Rightarrow> string \<Rightarrow> pynum \<Rightarrow> 'g state \<Rightarrow> 'g state" where
  "set_key a k v st = st\<lparr>dicts := (dicts st)[a := (dicts st ! a)(k \<mapsto> v)]\<rparr>"

definition get_key :: "ref \<Rightarrow> string \<Rightarrow> 'g state \<Rightarrow> pynum option" where
  "get_key a k st = (dicts st ! a) k"

definition derive_num_augmented_samples ::
  "'g state \<Rightarrow> ref \<Rightarrow> ref \<Rightarrow> 'g state \<times> (error + unit)" where
  "derive_num_augmented_samples st X_train augment_args =
     (if get_key augment_args ''num_augmented_samples'' st \<noteq> None then (st, Inr ())
      else
        (let st1 = (if get_key augment_args ''max_size'' st = None
                    then set_key augment_args ''max_size'' InfN st else st)
         in
        (case get_key augment_args ''max_size'' st1 of
           None \<Rightarrow> (st1, Inl (KeyError ''max_size''))
         | Some max_size \<Rightarrow>
        (case get_key augment_args ''size_factor'' st1 of
           None \<Rightarrow> (st1, Inl (KeyError ''size_factor''))
         | Some size_factor \<Rightarrow>
        (case py_int (py_min max_size (mul_len size_factor (len (heap st1 ! X_train)))) of
           Inl e \<Rightarrow> (st1, Inl e)
         | Inr v \<Rightarrow> (set_key augment_args ''num_augmented_samples'' (IntN v) st1, Inr ()))))))"

text \<open>
  The call \<^verbatim>\<open>sampler(X_train, feature_types_metadata, **augment_args)\<close>: a key that names one
  of the two positional parameters is refused, a key that names a keyword parameter gives
  its value, a keyword parameter without key has its default, and any other key is
  swallowed by \<^verbatim>\<open>**kwargs\<close>.
\<close>

definition kwarg :: "dict \<Rightarrow> string \<Rightarrow> pynum \<Rightarrow> pynum" where
  "kwarg d k dflt = (case d k of Some v \<Rightarrow> v | None \<Rightarrow> dflt)"

definition clashes_positional :: "dict \<Rightarrow> bool" where
  "clashes_positional d \<longleftrightarrow> d ''X'' \<noteq> None \<or> d ''feature_types_metadata'' \<noteq> None"

definition call_spunge ::
  "'g env \<Rightarrow> 'g state \<Rightarrow> ref \<Rightarrow> feature_types \<Rightarrow> dict \<Rightarrow> 'g state \<times> (error + ref)" where
  "call_spunge env st X feature_types_metadata d =
     (if clashes_positional d
      then (st, Inl (TypeError ''spunge_augment() got multiple values for argument''))
      else spunge_augment env st X feature_types_metadata
             (kwarg d ''num_augmented_samples'' num_augmented_samples_default)
             (kwarg d ''frac_perturb'' frac_perturb_default)
             (kwarg d ''continuous_feature_noise'' continuous_feature_noise_default))"

definition call_munge ::
  "'g env \<Rightarrow> 'g state \<Rightarrow> ref \<Rightarrow> feature_types \<Rightarrow> dict \<Rightarrow> 'g state \<times> (error + ref)" where
  "call_munge env st X feature_types_metadata d =
     (if clashes_positional d
      then (st, Inl (TypeError ''munge_augment() got multiple values for argument''))
      else munge_augment env st X feature_types_metadata
             (kwarg d ''num_augmented_samples'' num_augmented_samples_default)
             (kwarg d ''perturb_prob'' perturb_prob_default)
             (kwarg d ''s'' s_default))"

text \<open>
  \<^verbatim>\<open>augment_data(X_train, feature_types_metadata, augmentation_data=None,
  augment_method='spunge', augment_args={})\<close>. \<open>augment_args\<close> is the reference of a dictionary.
  The default \<^verbatim>\<open>{}\<close> is one object, made when the function is defined: it is the dictionary
  at \<open>default_augment_args\<close>, and a caller that omits the argument passes that reference.
\<close>

definition default_augment_args :: ref where
  "default_augment_args = 0"

definition augment_data ::
  "'g env \<Rightarrow> 'g state \<Rightarrow> ref \<Rightarrow> feature_types \<Rightarrow> ref option \<Rightarrow> string \<Rightarrow> ref
     \<Rightarrow> 'g state \<times> (error + ref)" where
  "augment_data env st X_train feature_types_metadata augmentation_data augment_method
       augment_args =
     (case augmentation_data of
        Some X_aug \<Rightarrow>
          (case postprocess_augmented st X_aug X_train of (st', r) \<Rightarrow> (st', Inr r))
      | None \<Rightarrow>
          (case derive_num_augmented_samples st X_train augment_args of
             (st1, Inl e) \<Rightarrow> (st1, Inl e)
           | (st1, Inr u) \<Rightarrow>
               (case (if augment_method = ''spunge''
                      then call_spunge env st1 X_train feature_types_metadata
                             (dicts st1 ! augment_args)
                      else if augment_method = ''munge''
                      then call_munge env st1 X_train feature_types_metadata
                             (dicts st1 ! augment_args)
                      else (st1, Inl (ValueError (''unknown augment_method: '' @ augment_method))))
                of
                  (st2, Inl e) \<Rightarrow> (st2, Inl e)
                | (st2, Inr X_aug) \<Rightarrow>
                    (case postprocess_augmented st2 X_aug X_train of
                       (st', r) \<Rightarrow> (st', Inr r)))))"

section \<open>Reference services and sample data\<close>

text \<open>
  Simple stand-ins for the external services, used to run the functions on concrete data.
  The encoder reads numeric cells as they are and every other cell as 0. The neighbor
  search orders the rows by squared Euclidean distance to the query row and returns the
  first two positions; as the library does for \<^verbatim>\<open>n_neighbors=2\<close>, it refuses fewer than
  two rows. The generator state is a counter: each draw increments it, a natural drawn is
  the counter, and every normal variate is 0.
\<close>

fun cell_number :: "cell \<Rightarrow> real" where
  "cell_number (IntC i) = of_int i"
| "cell_number (FloatC r) = r"
| "cell_number c = 0"

definition plain_vectorize :: "frame \<Rightarrow> feature_types \<Rightarrow> error + real list list" where
  "plain_vectorize f feature_types_metadata = Inr (map (map cell_number) (rows f))"

definition sq_dist :: "real list \<Rightarrow> real list \<Rightarrow> real" where
  "sq_dist u v = sum_list (map (\<lambda>(a, b). (a - b)\<^sup>2) (zip u v))"

definition two_nearest :: "real list list \<Rightarrow> nat \<Rightarrow> nat \<times> nat" where
  "two_nearest V i =
     (let order = sort_key (\<lambda>j. sq_dist (V ! i) (V ! j)) [0 ..< length V]
      in (order ! 0, order ! 1))"

definition brute_kneighbors :: "real list list \<Rightarrow> error + (nat \<times> nat) list" where
  "brute_kneighbors V =
     (if length V = 0 then Inl (ValueError ''Found array with 0 sample(s)'')
      else if length V < 2 then Inl (ValueError ''Expected n_neighbors <= n_samples_fit'')
      else Inr (map (two_nearest V) [0 ..< length V]))"

text \<open>
  The stand-in for \<^verbatim>\<open>np.nanstd\<close> is the exact standard deviation of the cells that are not
  NaN, and NaN (here \<open>None\<close>) when there is none. A string in the column raises.
\<close>

fun numeric_values :: "cell list \<Rightarrow> error + real list" where
  "numeric_values [] = Inr []"
| "numeric_values (StrC s # cs) = Inl (TypeError ''unsupported operand type for a string'')"
| "numeric_values (NaN # cs) = numeric_values cs"
| "numeric_values (IntC i # cs) =
     (case numeric_values cs of Inl e \<Rightarrow> Inl e | Inr vs \<Rightarrow> Inr (of_int i # vs))"
| "numeric_values (FloatC r # cs) =
     (case numeric_values cs of Inl e \<Rightarrow> Inl e | Inr vs \<Rightarrow> Inr (r # vs))"

definition exact_nanstd :: "cell list \<Rightarrow> error + real option" where
  "exact_nanstd cs =
     (case numeric_values cs of
        Inl e \<Rightarrow> Inl e
      | Inr [] \<Rightarrow> Inr None
      | Inr vs \<Rightarrow>
          (let m = sum_list vs / real (length vs)
           in Inr (Some (sqrt (sum_list (map (\<lambda>v. (v - m)\<^sup>2) vs) / real (length vs))))))"

definition counter_env :: "int env" where
  "counter_env =
     \<lparr>vectorize = plain_vectorize,
      kneighbors = brute_kneighbors,
      float_of_string = (\<lambda>s. None),
      np_nanstd = exact_nanstd,
      rand_nat = (\<lambda>g. (nat g, g + 1)),
      rand_normal = (\<lambda>sc g. (0, g + 1)),
      rand_binomial = (\<lambda>n p g. (nat g mod (n + 1), g + 1))\<rparr>"

definition one_row :: frame where
  "one_row = \<lparr>columns = [''a'', ''c''], dtypes = [Int64, Object], index = [0],
              rows = [[IntC 1, StrC ''u'']]\<rparr>"

definition three_rows :: frame where
  "three_rows = \<lparr>columns = [''a'', ''c''], dtypes = [Int64, Object], index = [0, 1, 2],
                 rows = [[IntC 1, StrC ''u''], [IntC 3, StrC ''v''], [IntC 2, StrC ''w'']]\<rparr>"

definition float_row :: frame where
  "float_row = \<lparr>columns = [''a'', ''c''], dtypes = [Float64, Object], index = [7],
                rows = [[FloatC (3 / 2), StrC ''z'']]\<rparr>"

definition int_is_a :: feature_types where
  "int_is_a = (\<lambda>k. if k = ''int'' then Some [''a''] else None)"

definition no_features :: feature_types where
  "no_features = (\<lambda>k. None)"

text \<open>The caller's dictionary \<^verbatim>\<open>{'size_factor': 2, 'frac_perturb': 0.5}\<close>.\<close>

definition size_factor_two :: dict where
  "size_factor_two =
     (\<lambda>k. if k = ''size_factor'' then Some (IntN 2)
          else if k = ''frac_perturb'' then Some (FloatN (1 / 2)) else None)"

definition start :: "int state" where
  "start = \<lparr>heap = [one_row, three_rows, float_row], dicts = [Map.empty, size_factor_two],
            gen = 0, calls = []\<rparr>"

text \<open>What a call returned: the exception, or the number of rows of the frame returned.\<close>

definition rows_returned :: "'g state \<times> (error + ref) \<Rightarrow> error + nat" where
  "rows_returned out =
     (case out of (st, Inl e) \<Rightarrow> Inl e | (st, Inr r) \<Rightarrow> Inr (len (heap st ! r)))"

section \<open>The specification's wording of two claims\<close>

text \<open>
  The specification gives the bound on the perturbed columns as
  \<open>max(1, round(frac_perturb \<times> column_count))\<close>; this is that formula, with rounding to the
  nearest integer.
\<close>

definition spec_num_feature_perturb :: "real \<Rightarrow> nat \<Rightarrow> int" where
  "spec_num_feature_perturb frac_perturb column_count =
     max 1 (round (frac_perturb * real column_count))"

text \<open>
  The specification asks that a bad argument be detected at the start of the operation:
  the call ends with the sampler's \<open>ValueError\<close> and the state is the one it started from
  (no service called, no draw made, no frame allocated or changed).
\<close>

definition rejected_at_start :: "'g state \<Rightarrow> 'g state \<times> (error + ref) \<Rightarrow> bool" where
  "rejected_at_start st out \<longleftrightarrow>
     fst out = st \<and> snd out = Inl (ValueError ''frac_perturb must be <= 1'')"

section \<open>Properties of the rounding\<close>

lemma pow2_powr: "pow2 k = 2 powr (of_int k)"
proof (cases "0 \<le> k")
  case True
  then have "2 powr (of_int k) = (2::real) ^ nat k"
    by (metis of_int_of_nat_eq of_nat_nat powr_realpow zero_less_numeral)
  then show ?thesis using True by (simp add: pow2_def)
next
  case False
  then have "of_int k = - real (nat (- k))" by simp
  then have "2 powr (of_int k) = 1 / (2::real) ^ nat (- k)"
    by (metis powr_minus_divide powr_realpow zero_less_numeral)
  then show ?thesis using False by (simp add: pow2_def)
qed

lemma pow2_pos: "0 < pow2 k"
  by (simp add: pow2_powr)

lemma pow2_add: "pow2 (a + b) = pow2 a * pow2 b"
  by (simp add: pow2_powr powr_add)

lemma pow2_mono: "a \<le> b \<Longrightarrow> pow2 a \<le> pow2 b"
  by (simp add: pow2_powr)

lemma pow2_less: "pow2 a < pow2 b \<Longrightarrow> a < b"
  by (simp add: pow2_powr)

lemma expo_bounds:
  assumes "x \<noteq> 0"
  shows "pow2 (expo x) \<le> \<bar>x\<bar>" and "\<bar>x\<bar> < pow2 (expo x + 1)"
proof -
  have "0 < \<bar>x\<bar>" using assms by simp
  then have "2 powr (of_int (expo x)) \<le> \<bar>x\<bar> \<and> \<bar>x\<bar> < 2 powr (of_int (expo x + 1))"
    using floor_log_eq_powr_iff [of "\<bar>x\<bar>" 2 "expo x"] by (simp add: expo_def)
  then show "pow2 (expo x) \<le> \<bar>x\<bar>" and "\<bar>x\<bar> < pow2 (expo x + 1)"
    by (simp_all add: pow2_powr)
qed

lemma expo_eqI:
  assumes "pow2 e \<le> \<bar>x\<bar>" and "\<bar>x\<bar> < pow2 (e + 1)"
  shows "expo x = e"
proof -
  have "0 < \<bar>x\<bar>" using assms(1) pow2_pos [of e] by linarith
  then show ?thesis
    using floor_log_eq_powr_iff [of "\<bar>x\<bar>" 2 e] assms by (simp add: expo_def pow2_powr)
qed

lemma fl_eqI:
  assumes "pow2 e \<le> \<bar>x\<bar>" and "\<bar>x\<bar> < pow2 (e + 1)"
  shows "fl x = of_int (round_even (x / pow2 (e - 52))) * pow2 (e - 52)"
proof -
  have "x \<noteq> 0" using assms(1) pow2_pos [of e] by auto
  then show ?thesis
    using expo_eqI [OF assms] by (simp add: fl_def)
qed

lemma fl_zero [simp]: "fl 0 = 0"
  by (simp add: fl_def)

lemma round_even_of_int [simp]: "round_even (of_int k) = k"
  by (simp add: round_even_def)

lemma round_even_ge: "of_int n \<le> z \<Longrightarrow> n \<le> round_even z"
proof -
  assume "of_int n \<le> z"
  then have "n \<le> \<lfloor>z\<rfloor>" by (simp add: le_floor_iff)
  then show ?thesis by (auto simp: round_even_def Let_def)
qed

lemma round_even_le: "z \<le> of_int n \<Longrightarrow> round_even z \<le> n"
proof (cases "z = of_int n")
  case True
  then show ?thesis by simp
next
  case False
  assume "z \<le> of_int n"
  then have "z < of_int n" using False by simp
  then have "\<lfloor>z\<rfloor> < n" by (simp add: floor_less_iff)
  then show ?thesis by (auto simp: round_even_def Let_def)
qed

lemma fl_nonneg: "0 \<le> x \<Longrightarrow> 0 \<le> fl x"
proof -
  assume x: "0 \<le> x"
  have "0 \<le> round_even (x / pow2 (expo x - 52))"
    using x pow2_pos [of "expo x - 52"] by (intro round_even_ge) simp
  then show ?thesis
    using pow2_pos [of "expo x - 52"] by (simp add: fl_def)
qed

lemma fl_nonpos: "x \<le> 0 \<Longrightarrow> fl x \<le> 0"
proof -
  assume x: "x \<le> 0"
  have "round_even (x / pow2 (expo x - 52)) \<le> 0"
    using x pow2_pos [of "expo x - 52"] by (intro round_even_le) (simp add: divide_nonpos_pos)
  then show ?thesis
    using pow2_pos [of "expo x - 52"] by (simp add: fl_def mult_le_0_iff)
qed

text \<open>A number that is a multiple of the unit of its own exponent is a float.\<close>

lemma fl_exact:
  assumes "x / pow2 (expo x - 52) = of_int k"
  shows "fl x = x"
proof (cases "x = 0")
  case True
  then show ?thesis by simp
next
  case False
  have "fl x = of_int k * pow2 (expo x - 52)"
    using False assms by (simp add: fl_def)
  also have "\<dots> = x"
    using assms pow2_pos [of "expo x - 52"] by (simp add: field_simps)
  finally show ?thesis .
qed

text \<open>A float is a multiple of the unit of its exponent.\<close>

lemma float_multiple:
  assumes "fl x = x" and "x \<noteq> 0"
  shows "x / pow2 (expo x - 52) = of_int (round_even (x / pow2 (expo x - 52)))"
proof -
  have "x = of_int (round_even (x / pow2 (expo x - 52))) * pow2 (expo x - 52)"
    using assms by (simp add: fl_def)
  then show ?thesis
    using pow2_pos [of "expo x - 52"]
    by (metis less_irrefl nonzero_mult_div_cancel_right)
qed


lemma pow2_split: "pow2 (e + k) = pow2 k * pow2 e"
  by (simp add: pow2_add mult.commute)

lemma pow2_52: "pow2 e = of_int (2 ^ 52) * pow2 (e - 52)"
proof -
  have "pow2 52 = of_int (2 ^ 52)" by (simp add: pow2_def)
  moreover have "pow2 e = pow2 52 * pow2 (e - 52)"
    using pow2_add [of 52 "e - 52"] by simp
  ultimately show ?thesis by simp
qed

lemma pow2_53: "pow2 (e + 1) = of_int (2 ^ 53) * pow2 (e - 52)"
proof -
  have "pow2 53 = of_int (2 ^ 53)" by (simp add: pow2_def)
  moreover have "pow2 (e + 1) = pow2 53 * pow2 (e - 52)"
    using pow2_add [of 53 "e - 52"] by (simp add: add.commute)
  ultimately show ?thesis by simp
qed

text \<open>
  Rounding never crosses a float: a float below \<open>z\<close> stays below the rounded \<open>z\<close>, and a
  float above \<open>z\<close> stays above it.
\<close>

lemma fl_mono_lower:
  assumes d: "fl d = d" and pos: "0 < d" and le: "d \<le> z"
  shows "d \<le> fl z"
proof -
  define e where "e = expo z"
  define u where "u = pow2 (e - 52)"
  have z0: "z \<noteq> 0" and zpos: "0 < z" using pos le by auto
  have u: "0 < u" by (simp add: u_def pow2_pos)
  have lo: "pow2 e \<le> z" and hi: "z < pow2 (e + 1)"
    using expo_bounds [OF z0] zpos by (simp_all add: e_def)
  have flz: "fl z = of_int (round_even (z / u)) * u"
    using z0 by (simp add: fl_def e_def u_def)
  show ?thesis
  proof (cases "d < pow2 e")
    case True
    have "of_int (2 ^ 52) \<le> z / u"
      using lo u pow2_52 [of e] by (simp add: u_def pos_le_divide_eq)
    then have "2 ^ 52 \<le> round_even (z / u)"
      by (rule round_even_ge)
    then have "of_int (2 ^ 52) * u \<le> of_int (round_even (z / u)) * u"
      using u by (simp only: mult_le_cancel_right_pos of_int_le_iff)
    then have "pow2 e \<le> fl z"
      using pow2_52 [of e] by (simp add: flz u_def)
    then show ?thesis using True by linarith
  next
    case False
    then have "pow2 e \<le> \<bar>d\<bar>" and "\<bar>d\<bar> < pow2 (e + 1)"
      using pos le hi by auto
    then have ed: "expo d = e" by (rule expo_eqI)
    have d0: "d \<noteq> 0" using pos by simp
    obtain n where n: "d / u = of_int n"
      using float_multiple [OF d d0] by (auto simp: ed u_def)
    have "of_int n \<le> z / u"
      using le u n by (metis divide_right_mono less_imp_le)
    then have "n \<le> round_even (z / u)"
      by (rule round_even_ge)
    then have "of_int n * u \<le> of_int (round_even (z / u)) * u"
      using u by (simp only: mult_le_cancel_right_pos of_int_le_iff)
    moreover have "of_int n * u = d"
      using n u by (simp add: field_simps)
    ultimately show ?thesis by (simp add: flz)
  qed
qed

lemma fl_mono_upper:
  assumes d: "fl d = d" and pos: "0 < z" and le: "z \<le> d"
  shows "fl z \<le> d"
proof -
  define e where "e = expo z"
  define u where "u = pow2 (e - 52)"
  have z0: "z \<noteq> 0" using pos by auto
  have u: "0 < u" by (simp add: u_def pow2_pos)
  have lo: "pow2 e \<le> z" and hi: "z < pow2 (e + 1)"
    using expo_bounds [OF z0] pos by (simp_all add: e_def)
  have flz: "fl z = of_int (round_even (z / u)) * u"
    using z0 by (simp add: fl_def e_def u_def)
  show ?thesis
  proof (cases "pow2 (e + 1) \<le> d")
    case True
    have "z / u \<le> of_int (2 ^ 53)"
      using hi u pow2_53 [of e] by (simp add: u_def pos_divide_le_eq)
    then have "round_even (z / u) \<le> 2 ^ 53"
      by (rule round_even_le)
    then have "of_int (round_even (z / u)) * u \<le> of_int (2 ^ 53) * u"
      using u by (simp only: mult_le_cancel_right_pos of_int_le_iff)
    then have "fl z \<le> pow2 (e + 1)"
      using pow2_53 [of e] by (simp add: flz u_def)
    then show ?thesis using True by linarith
  next
    case False
    then have "pow2 e \<le> \<bar>d\<bar>" and "\<bar>d\<bar> < pow2 (e + 1)"
      using pos le lo by auto
    then have ed: "expo d = e" by (rule expo_eqI)
    have d0: "d \<noteq> 0" using pos le by auto
    obtain n where n: "d / u = of_int n"
      using float_multiple [OF d d0] by (auto simp: ed u_def)
    have "z / u \<le> of_int n"
      using le u n by (metis divide_right_mono less_imp_le)
    then have "round_even (z / u) \<le> n"
      by (rule round_even_le)
    then have "of_int (round_even (z / u)) * u \<le> of_int n * u"
      using u by (simp only: mult_le_cancel_right_pos of_int_le_iff)
    moreover have "of_int n * u = d"
      using n u by (simp add: field_simps)
    ultimately show ?thesis by (simp add: flz)
  qed
qed

text \<open>The integers up to \<open>2\<^sup>5\<^sup>3\<close> are floats.\<close>

lemma fl_of_int:
  assumes "\<bar>i\<bar> \<le> 2 ^ 53"
  shows "fl (of_int i) = of_int i"
proof (cases "i = 0")
  case True
  then show ?thesis by simp
next
  case False
  define x :: real where "x = of_int i"
  define e where "e = expo x"
  have x0: "x \<noteq> 0" using False by (simp add: x_def)
  have lo: "pow2 e \<le> \<bar>x\<bar>" and hi: "\<bar>x\<bar> < pow2 (e + 1)"
    using expo_bounds [OF x0] by (simp_all add: e_def)
  have ax: "\<bar>x\<bar> \<le> pow2 53"
  proof -
    have "\<bar>x\<bar> = of_int \<bar>i\<bar>" by (simp add: x_def)
    also have "\<dots> \<le> of_int (2 ^ 53)" using assms by (simp only: of_int_le_iff)
    finally show ?thesis by (simp add: pow2_def)
  qed
  have e53: "e \<le> 53"
  proof (rule ccontr)
    assume "\<not> e \<le> 53"
    then have "pow2 54 \<le> pow2 e" by (intro pow2_mono) simp
    moreover have "pow2 53 < pow2 54" by (simp add: pow2_def)
    ultimately show False using lo ax by linarith
  qed
  show ?thesis
  proof (cases "e \<le> 52")
    case True
    have "pow2 (e - 52) * pow2 (52 - e) = 1"
      using pow2_add [of "e - 52" "52 - e"] by (simp add: pow2_def)
    then have "x / pow2 (e - 52) = x * pow2 (52 - e)"
      using pow2_pos [of "e - 52"] by (simp add: field_simps)
    also have "\<dots> = of_int (i * 2 ^ nat (52 - e))"
      using True by (simp add: pow2_def x_def)
    finally have "x / pow2 (expo x - 52) = of_int (i * 2 ^ nat (52 - e))"
      by (simp add: e_def)
    then have "fl x = x" by (rule fl_exact)
    then show ?thesis by (simp add: x_def)
  next
    case False
    then have e: "e = 53" using e53 by simp
    then have "\<bar>x\<bar> = pow2 53" using lo ax by simp
    then have "of_int \<bar>i\<bar> = (of_int (2 ^ 53) :: real)"
      by (simp add: x_def pow2_def)
    then have ai: "\<bar>i\<bar> = 2 ^ 53" by (simp only: of_int_eq_iff)
    then have "even i" by (metis even_abs_add_iff even_add even_numeral even_power pos2 zero_less_numeral)
    then have "i = 2 * (i div 2)" by simp
    then have "x = 2 * of_int (i div 2)"
      unfolding x_def by (metis of_int_mult of_int_numeral)
    then have "x / pow2 (e - 52) = of_int (i div 2)"
      using e by (simp add: pow2_def)
    then have "x / pow2 (expo x - 52) = of_int (i div 2)"
      by (simp add: e_def)
    then have "fl x = x" by (rule fl_exact)
    then show ?thesis by (simp add: x_def)
  qed
qed

lemma float_of_int_small: "\<bar>i\<bar> \<le> 2 ^ 53 \<Longrightarrow> float_of_int i = of_int i"
  by (simp add: float_of_int_def fl_of_int)

lemma fl_one [simp]: "fl 1 = 1"
  using fl_of_int [of 1] by simp

lemma fl_numeral: "(numeral k :: int) \<le> 2 ^ 53 \<Longrightarrow> fl (numeral k) = numeral k"
  using fl_of_int [of "numeral k"] by simp

lemma fl_neg_numeral: "(numeral k :: int) \<le> 2 ^ 53 \<Longrightarrow> fl (- numeral k) = - numeral k"
  using fl_of_int [of "- numeral k"] by simp

lemma float_of_int_0 [simp]: "float_of_int 0 = 0"
  by (simp add: float_of_int_def)

lemma float_of_int_1 [simp]: "float_of_int 1 = 1"
  by (simp add: float_of_int_def)

lemma float_of_int_numeral:
  "(numeral k :: int) \<le> 2 ^ 53 \<Longrightarrow> float_of_int (numeral k) = numeral k"
  by (simp add: float_of_int_def fl_numeral)

lemma float_of_int_is_float: "fl (float_of_int i) = float_of_int i \<or> 2 ^ 53 < \<bar>i\<bar>"
  by (auto simp: float_of_int_def fl_of_int not_less)


text \<open>Rounding commutes with a scaling by a power of two.\<close>

lemma expo_scale:
  assumes "x \<noteq> 0"
  shows "expo (x * pow2 k) = expo x + k"
proof (rule expo_eqI)
  have p: "0 < pow2 k" by (rule pow2_pos)
  have a: "\<bar>x * pow2 k\<bar> = \<bar>x\<bar> * pow2 k"
    using p by (simp add: abs_mult)
  show "pow2 (expo x + k) \<le> \<bar>x * pow2 k\<bar>"
    using expo_bounds(1) [OF assms] p by (simp add: a pow2_add)
  show "\<bar>x * pow2 k\<bar> < pow2 (expo x + k + 1)"
    using expo_bounds(2) [OF assms] p pow2_add [of "expo x + 1" k]
    by (simp add: a add.commute add.left_commute)
qed

lemma fl_scale: "fl (x * pow2 k) = fl x * pow2 k"
proof (cases "x = 0")
  case True
  then show ?thesis by simp
next
  case False
  have p: "0 < pow2 k" by (rule pow2_pos)
  have nz: "x * pow2 k \<noteq> 0" using False p by simp
  have u: "pow2 (expo x + k - 52) = pow2 (expo x - 52) * pow2 k"
    using pow2_add [of "expo x - 52" k] by (simp add: algebra_simps)
  have q: "x * pow2 k / (pow2 (expo x - 52) * pow2 k) = x / pow2 (expo x - 52)"
    using p by simp
  show ?thesis
    using False nz by (simp add: fl_def expo_scale u q)
qed

lemma fl_double: "fl (2 * x) = 2 * fl x"
proof -
  have "pow2 1 = 2" by (simp add: pow2_def)
  then show ?thesis using fl_scale [of x 1] by (simp add: mult.commute)
qed

text \<open>Every \<open>m \<times> 2\<^sup>k\<close> with \<open>|m| \<le> 2\<^sup>5\<^sup>3\<close> is a float, and so is every rounded number.\<close>

lemma fl_dyadic: "\<bar>m\<bar> \<le> 2 ^ 53 \<Longrightarrow> fl (of_int m * pow2 k) = of_int m * pow2 k"
  by (simp add: fl_scale fl_of_int)

lemma fl_idem [simp]: "fl (fl x) = fl x"
proof (cases "x = 0")
  case True
  then show ?thesis by simp
next
  case False
  define u where "u = pow2 (expo x - 52)"
  define n where "n = round_even (x / u)"
  have u: "0 < u" by (simp add: u_def pow2_pos)
  define c :: int where "c = 2 ^ 53"
  have "\<bar>x\<bar> < of_int c * u"
    using expo_bounds(2) [OF False] pow2_53 [of "expo x"] by (simp add: u_def c_def)
  then have "\<bar>x\<bar> / u < of_int c"
    using u by (simp add: pos_divide_less_eq)
  then have b: "\<bar>x / u\<bar> < of_int c"
    using u by (simp add: abs_divide)
  have "x / u \<le> of_int c" using b by linarith
  then have hi: "n \<le> c" unfolding n_def by (rule round_even_le)
  have "of_int (- c) \<le> x / u" using b by (simp only: of_int_minus)
  then have lo: "- c \<le> n" unfolding n_def by (rule round_even_ge)
  have "fl x = of_int n * pow2 (expo x - 52)"
    using False by (simp add: fl_def n_def u_def)
  moreover have "\<bar>n\<bar> \<le> 2 ^ 53" using hi lo by (simp add: c_def)
  ultimately show ?thesis by (simp add: fl_dyadic)
qed

lemma float_of_int_float [simp]: "fl (float_of_int i) = float_of_int i"
  by (simp add: float_of_int_def)

lemma float_of_int_nonneg: "0 \<le> i \<Longrightarrow> 0 \<le> float_of_int i"
  by (simp add: float_of_int_def fl_nonneg)

text \<open>The float \<open>0.1\<close>, the default of two parameters, lies between 0 and a quarter.\<close>

lemma fl_quarter: "fl (1 / 4) = 1 / 4"
  using fl_dyadic [of 1 "- 2"] by (simp add: pow2_def)

lemma fl_tenth_bounds: "0 \<le> fl (1 / 10) \<and> fl (1 / 10) \<le> 1 / 4"
proof -
  have "fl (1 / 10) \<le> 1 / 4"
    using fl_quarter by (intro fl_mono_upper) simp_all
  moreover have "0 \<le> fl (1 / 10)"
    by (intro fl_nonneg) simp
  ultimately show ?thesis by simp
qed

lemma fl_tenth_not_above_one [simp]: "\<not> 1 < fl (1 / 10)"
  using fl_tenth_bounds by simp


section \<open>Running the model on concrete data\<close>

text \<open>
  The definitions to unfold when a function is run on concrete data, and the recursion
  equations of the loops for counts written as numerals.
\<close>

lemmas frame_core = len_def cell_at_def dtype_at_def get_column_def set_column_def iloc_first_def
  iloc_row_def set_row_def set_item_def get_item_def reset_index_def concat_dtype_def
  reindex_row_def concat2_def

lemmas example_defs = plain_vectorize_def sq_dist_def two_nearest_def brute_kneighbors_def
  counter_env_def one_row_def three_rows_def float_row_def rows_returned_def int_is_a_def
  no_features_def size_factor_two_def start_def

lemmas dispatch_defs = augment_data_def derive_num_augmented_samples_def get_key_def set_key_def
  py_min_def len_def call_spunge_def call_munge_def clashes_positional_def kwarg_def
  num_augmented_samples_default_def frac_perturb_default_def
  continuous_feature_noise_default_def perturb_prob_default_def s_default_def
  default_augment_args_def

lemmas post_defs = postprocess_augmented_def postprocess_frame_def alloc_def tail_def frame_core

lemma replicate_numeral: "replicate (numeral k) x = x # replicate (pred_numeral k) x"
  by (simp add: numeral_eq_Suc)

lemma normal_list_numeral:
  "normal_list env scale (numeral k) g =
     (case draw_normal env scale g of
        (z, g1) \<Rightarrow>
          (case normal_list env scale (pred_numeral k) g1 of (zs, g2) \<Rightarrow> (z # zs, g2)))"
  by (simp add: numeral_eq_Suc)

lemma binomial_list_numeral:
  "binomial_list env m p (numeral k) g =
     (case rand_binomial env m p g of
        (r, g1) \<Rightarrow>
          (case binomial_list env m p (pred_numeral k) g1 of (rs, g2) \<Rightarrow> (min m r # rs, g2)))"
  by (simp add: numeral_eq_Suc)

lemma choice_names_numeral:
  "choice_names env names (numeral k) g =
     (if names = [] then ([], g)
      else (case rand_nat env g of
              (r, g1) \<Rightarrow>
                (let p = r mod length names
                 in (case choice_names env (take p names @ drop (Suc p) names)
                            (pred_numeral k) g1 of
                       (rest, g2) \<Rightarrow> (names ! p # rest, g2)))))"
  by (simp add: numeral_eq_Suc)

lemma mod_two: "m mod Suc (Suc 0) = m mod 2"
  unfolding numeral_2_eq_2 ..

lemma mod_three: "m mod Suc (Suc (Suc 0)) = m mod 3"
  unfolding numeral_3_eq_3 ..

lemmas sampler_defs = frame_core alloc_def update_frame_def choice_range_def sample_one_def
  continuous_types_def continuous_featnames_of_def initial_batch_def spunge_row_def draw_normal_def
  add_noise_def num_feature_perturb_of_def spunge_augment_def cast_column_def cast_both_def
  neighbor_noise_def munge_row_def munge_augment_def
  num_augmented_samples_default_def frac_perturb_default_def
  continuous_feature_noise_default_def perturb_prob_default_def s_default_def
  upt_conv_Cons replicate_numeral normal_list_numeral binomial_list_numeral
  choice_names_numeral mod_two mod_three fl_numeral float_of_int_numeral


section \<open>The samplers leave the caller's frames alone\<close>

lemma keeps_refl: "keeps st st"
  by (simp add: keeps_def)

lemma keeps_gen: "keeps st0 st \<Longrightarrow> keeps st0 (st\<lparr>gen := g\<rparr>)"
  by (simp add: keeps_def)

lemma keeps_calls: "keeps st0 st \<Longrightarrow> keeps st0 (st\<lparr>calls := c\<rparr>)"
  by (simp add: keeps_def)

lemma keeps_write:
  "keeps st0 st \<Longrightarrow> length (heap st0) \<le> a \<Longrightarrow> keeps st0 (st\<lparr>heap := (heap st)[a := f]\<rparr>)"
  by (simp add: keeps_def)

lemma keeps_write_gen:
  "keeps st0 st \<Longrightarrow> length (heap st0) \<le> a
     \<Longrightarrow> keeps st0 (st\<lparr>heap := (heap st)[a := f], gen := g\<rparr>)"
  by (simp add: keeps_def)

lemma keeps_alloc:
  "keeps st0 st \<Longrightarrow> alloc f st = (r, st') \<Longrightarrow> keeps st0 st' \<and> length (heap st0) \<le> r"
  by (auto simp: keeps_def alloc_def)

lemma keeps_update_frame:
  "keeps st0 st \<Longrightarrow> length (heap st0) \<le> a \<Longrightarrow> keeps st0 (update_frame a h st)"
  by (simp add: keeps_def update_frame_def)

lemma keeps_nth: "keeps st0 st \<Longrightarrow> a < length (heap st0) \<Longrightarrow> heap st ! a = heap st0 ! a"
  by (metis keeps_def nth_take)

lemma for_each_keeps:
  assumes body: "\<And>x s s' r. keeps st0 s \<Longrightarrow> body x s = (s', r) \<Longrightarrow> keeps st0 s'"
    and "keeps st0 st" and "for_each body xs st = (st', r)"
  shows "keeps st0 st'"
  using assms(2,3)
proof (induction xs arbitrary: st)
  case Nil
  then show ?case by simp
next
  case (Cons x xs)
  obtain s1 r1 where step: "body x st = (s1, r1)"
    by (cases "body x st")
  have k1: "keeps st0 s1"
    using body Cons.prems(1) step by blast
  show ?case
  proof (cases r1)
    case (Inl e)
    then show ?thesis using Cons.prems(2) step k1 by simp
  next
    case (Inr u)
    then have "for_each body xs s1 = (st', r)"
      using Cons.prems(2) step by simp
    then show ?thesis using Cons.IH k1 by blast
  qed
qed

lemma spunge_row_keeps:
  assumes "length (heap st0) \<le> X_aug" and "keeps st0 st"
    and "spunge_row env X X_aug k i st = (st', r)"
  shows "keeps st0 st'"
  using assms
  by (auto simp: spunge_row_def Let_def keeps_gen keeps_write_gen
           split: if_splits sum.splits prod.splits)

lemma add_noise_keeps:
  assumes "length (heap st0) \<le> X_aug" and "keeps st0 st"
    and "add_noise env X X_aug names n fp noise feature st = (st', r)"
  shows "keeps st0 st'"
  using assms
  by (auto simp: add_noise_def keeps_gen keeps_write_gen
           split: if_splits sum.splits prod.splits option.splits)

lemma cast_column_keeps:
  assumes "length (heap st0) \<le> a" and "keeps st0 st"
    and "cast_column env a col st = (st', r)"
  shows "keeps st0 st'"
  using assms
  by (auto simp: cast_column_def keeps_write split: sum.splits prod.splits)

lemma cast_both_keeps:
  assumes "length (heap st0) \<le> X" and "length (heap st0) \<le> X_aug" and "keeps st0 st"
    and "cast_both env X X_aug col st = (st', r)"
  shows "keeps st0 st'"
  using assms
  by (auto simp: cast_both_def split: sum.splits prod.splits dest: cast_column_keeps)

lemma munge_row_keeps:
  assumes "length (heap st0) \<le> X_aug" and "keeps st0 st"
    and "munge_row env X X_aug neigh names p s i st = (st', r)"
  shows "keeps st0 st'"
  using assms
  by (auto simp: munge_row_def Let_def keeps_gen keeps_write_gen
           split: if_splits sum.splits prod.splits)

lemma spunge_augment_keeps:
  assumes "spunge_augment env st X ftm n fp noise = (st', r)"
  shows "keeps st st'"
proof (cases "py_lt (FloatN 1) fp")
  case True
  then show ?thesis using assms by (simp add: spunge_augment_def keeps_refl)
next
  case guard: False
  show ?thesis
  proof (cases "num_feature_perturb_of fp (length (columns (heap st ! X)))")
    case (Inl e)
    then show ?thesis using assms guard by (simp add: spunge_augment_def keeps_refl)
  next
    case nfp: (Inr k)
    show ?thesis
    proof (cases "initial_batch (heap st ! X) n")
      case (Inl e)
      then show ?thesis using assms guard nfp by (simp add: spunge_augment_def keeps_refl)
    next
      case batch: (Inr b)
      obtain X_aug st1 where al: "alloc b st = (X_aug, st1)"
        by (cases "alloc b st")
      have k1: "keeps st st1" and le: "length (heap st) \<le> X_aug"
        using keeps_alloc [OF keeps_refl al] by simp_all
      define st2 where "st2 = update_frame X_aug reset_index st1"
      have k2: "keeps st st2"
        unfolding st2_def using k1 le by (rule keeps_update_frame)
      obtain st3 r3 where rows:
        "for_each (spunge_row env X X_aug (nat k)) [0 ..< range_len n] st2 = (st3, r3)"
        by (cases "for_each (spunge_row env X X_aug (nat k)) [0 ..< range_len n] st2")
      have k3: "keeps st st3"
        using for_each_keeps [OF _ k2 rows] spunge_row_keeps [OF le] by blast
      show ?thesis
      proof (cases r3)
        case (Inl e)
        then show ?thesis
          using assms guard nfp batch al rows k3
          by (simp add: spunge_augment_def Let_def st2_def)
      next
        case (Inr u)
        obtain st4 r4 where noise:
          "for_each (add_noise env X X_aug (continuous_featnames_of ftm) (range_len n) fp noise)
             (columns (heap st3 ! X)) st3 = (st4, r4)"
          by (cases "for_each (add_noise env X X_aug (continuous_featnames_of ftm) (range_len n)
                       fp noise) (columns (heap st3 ! X)) st3")
        have k4: "keeps st st4"
          using for_each_keeps [OF _ k3 noise] add_noise_keeps [OF le] by blast
        show ?thesis
          using assms guard nfp batch al rows Inr noise k4
          by (cases r4) (simp_all add: spunge_augment_def Let_def st2_def)
      qed
    qed
  qed
qed


lemma munge_augment_keeps:
  assumes "munge_augment env st X ftm n p s = (st', r)"
  shows "keeps st st'"
proof -
  define sv where "sv = st\<lparr>calls := calls st @ [Vectorize]\<rparr>"
  define sk where "sk = sv\<lparr>calls := calls sv @ [KNeighbors]\<rparr>"
  have kv: "keeps st sv" and kk: "keeps st sk"
    by (simp_all add: sv_def sk_def keeps_def)
  have hv: "heap sv = heap st" and hk: "heap sk = heap st"
    by (simp_all add: sv_def sk_def)
  show ?thesis
  proof (cases "vectorize env (heap st ! X) ftm")
    case (Inl e)
    then show ?thesis
      using assms kv by (simp add: munge_augment_def Let_def sv_def)
  next
    case vec: (Inr V)
    show ?thesis
    proof (cases "kneighbors env V")
      case (Inl e)
      then show ?thesis
        using assms vec kk by (simp add: munge_augment_def Let_def sv_def sk_def)
    next
      case knn: (Inr neigh)
      show ?thesis
      proof (cases "py_lt (FloatN 1) p")
        case True
        then show ?thesis
          using assms vec knn kk by (simp add: munge_augment_def Let_def sv_def sk_def)
      next
        case guard: False
        obtain X_copy st1 where cp: "alloc (heap sk ! X) sk = (X_copy, st1)"
          by (cases "alloc (heap sk ! X) sk")
        have k1: "keeps st st1" and le1: "length (heap st) \<le> X_copy"
          using keeps_alloc [OF kk cp] by simp_all
        show ?thesis
        proof (cases "initial_batch (heap st1 ! X_copy) n")
          case (Inl e)
          then show ?thesis
            using assms vec knn guard cp k1
            by (simp add: munge_augment_def Let_def sv_def sk_def)
        next
          case batch: (Inr b)
          obtain X_aug st2 where al: "alloc b st1 = (X_aug, st2)"
            by (cases "alloc b st1")
          have k2: "keeps st st2" and le2: "length (heap st) \<le> X_aug"
            using keeps_alloc [OF k1 al] by simp_all
          define st3 where "st3 = update_frame X_aug reset_index st2"
          have k3: "keeps st st3"
            unfolding st3_def using k2 le2 by (rule keeps_update_frame)
          obtain st4 r4 where cast:
            "for_each (cast_both env X_copy X_aug) (continuous_featnames_of ftm) st3 = (st4, r4)"
            by (cases "for_each (cast_both env X_copy X_aug) (continuous_featnames_of ftm) st3")
          have k4: "keeps st st4"
            using for_each_keeps [OF _ k3 cast] cast_both_keeps [OF le1 le2] by blast
          show ?thesis
          proof (cases r4)
            case (Inl e)
            then show ?thesis
              using assms vec knn guard cp batch al cast k4
              by (simp add: munge_augment_def Let_def sv_def sk_def st3_def)
          next
            case (Inr u)
            obtain st5 r5 where rows:
              "for_each (munge_row env X_copy X_aug (map snd neigh) (continuous_featnames_of ftm)
                 p s) [0 ..< range_len n] st4 = (st5, r5)"
              by (cases "for_each (munge_row env X_copy X_aug (map snd neigh)
                           (continuous_featnames_of ftm) p s) [0 ..< range_len n] st4")
            have k5: "keeps st st5"
              using for_each_keeps [OF _ k4 rows] munge_row_keeps [OF le2] by blast
            show ?thesis
              using assms vec knn guard cp batch al cast Inr rows k5
              by (cases r5) (simp_all add: munge_augment_def Let_def sv_def sk_def st3_def)
          qed
        qed
      qed
    qed
  qed
qed

text \<open>
  Claim C10. Neither sampler changes a frame the store held when it was called, so the
  caller's \<open>X\<close> has the same cells, columns, dtypes and index after the call as before:
  \<^verbatim>\<open>spunge_augment\<close> writes only into the batch it allocates, and \<^verbatim>\<open>munge_augment\<close> into
  the batch and into its own copy of \<open>X\<close>. This holds when the call returns a batch and when
  it raises.
\<close>

theorem samplers_leave_input_unchanged:
  "keeps st (fst (spunge_augment env st X ftm n fp noise))
   \<and> keeps st (fst (munge_augment env st X ftm n p s))
   \<and> (X < length (heap st) \<longrightarrow>
        heap (fst (spunge_augment env st X ftm n fp noise)) ! X = heap st ! X
        \<and> heap (fst (munge_augment env st X ftm n p s)) ! X = heap st ! X)"
proof -
  have a: "keeps st (fst (spunge_augment env st X ftm n fp noise))"
    using spunge_augment_keeps [of env st X ftm n fp noise] by (metis prod.collapse)
  have b: "keeps st (fst (munge_augment env st X ftm n p s))"
    using munge_augment_keeps [of env st X ftm n p s] by (metis prod.collapse)
  show ?thesis
    using a b keeps_nth by blast
qed

text \<open>
  On the sample data: the neighbor-guided sampler returns a batch of two rows, its private
  copy of the frame has the continuous column cast to float, and the caller's frame still
  has the integer column.
\<close>

theorem samplers_leave_input_unchanged_witness:
  "(1::nat) < length (heap start)
   \<and> snd (munge_augment counter_env start 1 int_is_a (IntN 2) perturb_prob_default s_default)
       = Inr 4
   \<and> dtypes (heap (fst (munge_augment counter_env start 1 int_is_a (IntN 2)
                          perturb_prob_default s_default)) ! 3) = [Float64, Object]
   \<and> heap (fst (munge_augment counter_env start 1 int_is_a (IntN 2)
                  perturb_prob_default s_default)) ! 1 = three_rows
   \<and> heap (fst (spunge_augment counter_env start 1 int_is_a (IntN 2)
                  frac_perturb_default continuous_feature_noise_default)) ! 1 = three_rows"
proof -
  have run: "snd (munge_augment counter_env start 1 int_is_a (IntN 2) perturb_prob_default
                    s_default) = Inr 4
             \<and> dtypes (heap (fst (munge_augment counter_env start 1 int_is_a (IntN 2)
                                    perturb_prob_default s_default)) ! 3) = [Float64, Object]"
    by (simp add: example_defs sampler_defs)
  have live: "(1::nat) < length (heap start)" and x: "heap start ! 1 = three_rows"
    by (simp_all add: start_def)
  show ?thesis
    using samplers_leave_input_unchanged
            [of start counter_env 1 int_is_a "IntN 2" frac_perturb_default
                continuous_feature_noise_default perturb_prob_default s_default]
          run live x
    by simp
qed


section \<open>The bound on the perturbed columns\<close>

lemma trunc_bound:
  assumes "z \<le> of_int n" and "0 \<le> n"
  shows "(if z < 0 then \<lceil>z\<rceil> else \<lfloor>z\<rfloor>) \<le> n"
proof (cases "z < 0")
  case True
  then have "\<lceil>z\<rceil> \<le> 0" by (simp add: ceiling_le_iff)
  then have "\<lceil>z\<rceil> \<le> n" using assms(2) by (rule order_trans)
  then show ?thesis using True by simp
next
  case False
  then show ?thesis using assms(1) by (simp add: floor_le_iff)
qed

text \<open>
  Claim C3, as amended. For a finite \<open>frac_perturb\<close> that passes the test \<open>frac_perturb \<le> 1\<close>,
  the bound on the number of perturbed columns is \<open>max(1, int(frac_perturb \<times> column_count))\<close>,
  where the product of a float is the rounded float product and \<open>int\<close> truncates towards
  zero: it is the maximum of 1 and the floor of the product for \<open>frac_perturb \<ge> 0\<close>, and 1
  for a negative \<open>frac_perturb\<close>. It is at least 1 and, for a column count below \<open>2\<^sup>5\<^sup>3\<close>, at
  most \<open>max(1, column_count)\<close>.
\<close>

theorem num_feature_perturb_truncates:
  assumes "finite_value frac_perturb = Some r" and "\<not> py_lt (FloatN 1) frac_perturb"
  shows "\<exists>v. num_feature_perturb_of frac_perturb ncols = Inr v
           \<and> 1 \<le> v
           \<and> (r < 0 \<longrightarrow> v = 1)
           \<and> (\<forall>i. frac_perturb = IntN i \<longrightarrow> v = max 1 (i * int ncols))
           \<and> (\<forall>q. frac_perturb = FloatN q \<and> 0 \<le> q
                 \<longrightarrow> v = max 1 \<lfloor>fl (q * float_of_int (int ncols))\<rfloor>)
           \<and> (int ncols \<le> 2 ^ 53 \<longrightarrow> v \<le> max 1 (int ncols))"
proof (cases frac_perturb)
  case (IntN i)
  then have r: "r = of_int i" and le: "i \<le> 1"
    using assms by auto
  have up: "i * int ncols \<le> int ncols"
    using mult_right_mono [of i 1 "int ncols"] le by simp
  have neg: "i < 0 \<Longrightarrow> i * int ncols \<le> 0"
    by (simp add: mult_le_0_iff)
  show ?thesis
    using IntN r up neg by (auto simp: num_feature_perturb_of_def)
next
  case (FloatN q)
  then have r: "r = q" and le: "q \<le> 1"
    using assms by auto
  define c where "c = float_of_int (int ncols)"
  define x where "x = fl (q * c)"
  define t where "t = (if x < 0 then \<lceil>x\<rceil> else \<lfloor>x\<rfloor>)"
  have c0: "0 \<le> c"
    unfolding c_def by (rule float_of_int_nonneg) simp
  have run: "num_feature_perturb_of frac_perturb ncols = Inr (max 1 t)"
    using FloatN by (simp add: num_feature_perturb_of_def t_def x_def c_def)
  have nonneg: "t = \<lfloor>x\<rfloor>" if "0 \<le> q"
  proof -
    have "0 \<le> x" unfolding x_def using that c0 by (intro fl_nonneg) simp
    then show ?thesis by (simp add: t_def)
  qed
  have neg: "t \<le> 0" if "q < 0"
  proof -
    have "q * c \<le> 0" using that c0 by (simp add: mult_le_0_iff)
    then have x0: "x \<le> 0" unfolding x_def by (rule fl_nonpos)
    then have "\<lceil>x\<rceil> \<le> 0" and "\<lfloor>x\<rfloor> \<le> 0"
      by (simp_all add: ceiling_le_iff floor_le_iff)
    then show ?thesis by (simp add: t_def)
  qed
  have small: "t \<le> int ncols" if n: "int ncols \<le> 2 ^ 53"
  proof -
    have c: "c = of_int (int ncols)"
      unfolding c_def using n by (intro float_of_int_small) simp
    have fc: "fl c = c" by (simp add: c_def)
    have qc: "q * c \<le> c"
      using mult_right_mono [of q 1 c] le c0 by simp
    have "x \<le> c"
    proof (cases "0 < q * c")
      case True
      then show ?thesis unfolding x_def using fc qc by (intro fl_mono_upper)
    next
      case False
      then have "fl (q * c) \<le> 0" by (intro fl_nonpos) simp
      then show ?thesis using c0 by (simp add: x_def)
    qed
    then have "x \<le> of_int (int ncols)" using c by simp
    then show ?thesis unfolding t_def by (rule trunc_bound) simp
  qed
  show ?thesis
    using run FloatN r nonneg neg small unfolding x_def c_def by auto
next
  case InfN
  then show ?thesis using assms by simp
next
  case NanN
  then show ?thesis using assms by simp
qed

lemma fl_seven_quarters: "fl (7 / 4) = 7 / 4"
  using fl_dyadic [of 7 "- 2"] by (simp add: pow2_def)

lemma num_feature_perturb_example: "num_feature_perturb_of (FloatN (7 / 8)) 2 = Inr 1"
proof -
  have "fl (7 / 8 * float_of_int 2) = 7 / 4"
    using fl_seven_quarters by (simp add: float_of_int_numeral)
  then show ?thesis
    by (simp add: num_feature_perturb_of_def)
qed

theorem num_feature_perturb_truncates_witness:
  "finite_value (FloatN (7 / 8)) = Some (7 / 8) \<and> \<not> py_lt (FloatN 1) (FloatN (7 / 8))
   \<and> (\<exists>v. num_feature_perturb_of (FloatN (7 / 8)) 2 = Inr v \<and> 1 \<le> v \<and> v \<le> 2 \<and> v = 1)"
proof -
  have h: "finite_value (FloatN (7 / 8)) = Some (7 / 8)" "\<not> py_lt (FloatN 1) (FloatN (7 / 8))"
    by simp_all
  show ?thesis
    using num_feature_perturb_truncates [OF h, of 2] num_feature_perturb_example h
    by auto
qed

text \<open>
  The claim as the specification words it fails: with \<open>frac_perturb = 7/8\<close> and two
  columns the product is \<open>7/4\<close> (exactly, also in floats), which rounds to 2, and the code's
  bound is 1.
\<close>

theorem num_feature_perturb_not_rounded:
  "num_feature_perturb_of (FloatN (7 / 8)) 2 = Inr 1
   \<and> spec_num_feature_perturb (7 / 8) 2 = 2
   \<and> num_feature_perturb_of (FloatN (7 / 8)) 2 \<noteq> Inr (spec_num_feature_perturb (7 / 8) 2)"
  using num_feature_perturb_example
  by (simp add: spec_num_feature_perturb_def round_def)


section \<open>The post-processor\<close>

lemma len_concat2: "len (concat2 a b) = len a + len b"
  by (simp add: concat2_def len_def Let_def)

lemma columns_concat2:
  "columns (concat2 a b) = columns a @ filter (\<lambda>c. c \<notin> set (columns a)) (columns b)"
  by (simp add: concat2_def Let_def)

lemma dtypes_concat2:
  "dtypes (concat2 a b) = map (concat_dtype a b) (columns (concat2 a b))"
  by (simp add: concat2_def Let_def)

lemma postprocess_len: "len (postprocess_frame X_aug X) = len X_aug"
  by (simp add: postprocess_frame_def Let_def tail_def reset_index_def len_def concat2_def)

lemma postprocess_index: "index (postprocess_frame X_aug X) = map int [0 ..< len X_aug]"
proof -
  have "index (postprocess_frame X_aug X) = map int [0 ..< len (postprocess_frame X_aug X)]"
    by (simp add: postprocess_frame_def Let_def reset_index_def len_def)
  then show ?thesis by (simp add: postprocess_len)
qed

lemma postprocess_columns:
  "columns (postprocess_frame X_aug X)
     = columns X @ filter (\<lambda>c. c \<notin> set (columns X)) (columns X_aug)"
  by (simp add: postprocess_frame_def Let_def tail_def reset_index_def columns_concat2)

lemma postprocess_dtypes:
  "dtypes (postprocess_frame X_aug X)
     = map (concat_dtype X X_aug) (columns (postprocess_frame X_aug X))"
  by (simp add: postprocess_frame_def Let_def tail_def reset_index_def concat2_def)

lemma find_pos_nth:
  "distinct cs \<Longrightarrow> p < length cs \<Longrightarrow> find_pos cs (cs ! p) = Some p"
proof (induction cs arbitrary: p)
  case Nil
  then show ?case by simp
next
  case (Cons c cs)
  show ?case
  proof (cases p)
    case 0
    then show ?thesis by simp
  next
    case (Suc q)
    then have "cs ! q \<noteq> c" and "find_pos cs (cs ! q) = Some q"
      using Cons by auto
    then show ?thesis using Suc by auto
  qed
qed

lemma promote_same: "promote d d = d"
  by (cases d) simp_all

lemma same_schema_dtypes:
  assumes "wf_frame X" and "columns X_aug = columns X" and "dtypes X_aug = dtypes X"
  shows "map (concat_dtype X X_aug) (columns X) = dtypes X"
proof (rule nth_equalityI)
  show "length (map (concat_dtype X X_aug) (columns X)) = length (dtypes X)"
    using assms(1) by (simp add: wf_frame_def)
next
  fix p assume "p < length (map (concat_dtype X X_aug) (columns X))"
  then have p: "p < length (columns X)" by simp
  have d: "distinct (columns X)" and l: "length (dtypes X) = length (columns X)"
    using assms(1) by (simp_all add: wf_frame_def)
  have "concat_dtype X X_aug (columns X ! p) = dtypes X ! p"
    using p l assms(2,3) find_pos_nth [OF d p]
    by (simp add: concat_dtype_def dtype_at_def promote_same)
  then show "map (concat_dtype X X_aug) (columns X) ! p = dtypes X ! p"
    using p by simp
qed

text \<open>
  Claim C7, as amended. The frame the post-processor returns has exactly \<open>len(X_aug)\<close> rows
  and the index 0, 1, ..., and no frame the store held is changed, \<open>X\<close> included. Its columns
  are those of \<open>X\<close> in the order of \<open>X\<close>, followed by the columns only \<open>X_aug\<close> has, and the
  dtype of each column is the common dtype of the two frames for that column. When \<open>X_aug\<close>
  has the columns and the dtypes of \<open>X\<close> (and \<open>X\<close> is well formed), the result has the columns
  and the dtypes of \<open>X\<close>.
\<close>

theorem postprocess_augmented_result:
  assumes "postprocess_augmented st X_aug X = (st', r)"
  shows "len (heap st' ! r) = len (heap st ! X_aug)
       \<and> index (heap st' ! r) = map int [0 ..< len (heap st ! X_aug)]
       \<and> columns (heap st' ! r)
            = columns (heap st ! X)
              @ filter (\<lambda>c. c \<notin> set (columns (heap st ! X))) (columns (heap st ! X_aug))
       \<and> dtypes (heap st' ! r)
            = map (concat_dtype (heap st ! X) (heap st ! X_aug)) (columns (heap st' ! r))
       \<and> keeps st st'
       \<and> (X < length (heap st) \<longrightarrow> heap st' ! X = heap st ! X)
       \<and> (wf_frame (heap st ! X) \<and> columns (heap st ! X_aug) = columns (heap st ! X)
            \<and> dtypes (heap st ! X_aug) = dtypes (heap st ! X)
          \<longrightarrow> columns (heap st' ! r) = columns (heap st ! X)
              \<and> dtypes (heap st' ! r) = dtypes (heap st ! X))"
proof -
  have st': "st' = st\<lparr>heap := heap st @ [postprocess_frame (heap st ! X_aug) (heap st ! X)]\<rparr>"
    and r: "r = length (heap st)"
    using assms by (auto simp: postprocess_augmented_def alloc_def)
  have res: "heap st' ! r = postprocess_frame (heap st ! X_aug) (heap st ! X)"
    by (simp add: st' r)
  have k: "keeps st st'"
    by (simp add: st' keeps_def)
  have same: "columns (heap st' ! r) = columns (heap st ! X)
              \<and> dtypes (heap st' ! r) = dtypes (heap st ! X)"
    if "wf_frame (heap st ! X)" "columns (heap st ! X_aug) = columns (heap st ! X)"
       "dtypes (heap st ! X_aug) = dtypes (heap st ! X)"
  proof -
    have c: "columns (heap st' ! r) = columns (heap st ! X)"
      using that(2) by (simp add: res postprocess_columns)
    have "dtypes (heap st' ! r)
            = map (concat_dtype (heap st ! X) (heap st ! X_aug)) (columns (heap st ! X))"
      using c by (simp add: res postprocess_dtypes)
    then show ?thesis
      using c same_schema_dtypes [OF that] by simp
  qed
  show ?thesis
    using res k same keeps_nth [OF k]
    by (simp add: postprocess_len postprocess_index postprocess_columns postprocess_dtypes)
qed

theorem postprocess_augmented_result_witness:
  "postprocess_augmented start 1 0 = (start\<lparr>heap := heap start @ [three_rows]\<rparr>, 3)
   \<and> wf_frame (heap start ! 0)
   \<and> columns (heap start ! 1) = columns (heap start ! 0)
   \<and> dtypes (heap start ! 1) = dtypes (heap start ! 0)
   \<and> len (heap (start\<lparr>heap := heap start @ [three_rows]\<rparr>) ! 3) = len (heap start ! 1)
   \<and> dtypes (heap (start\<lparr>heap := heap start @ [three_rows]\<rparr>) ! 3) = dtypes (heap start ! 0)"
proof -
  have run: "postprocess_augmented start 1 0 = (start\<lparr>heap := heap start @ [three_rows]\<rparr>, 3)"
    by (simp add: example_defs post_defs)
  have hyp: "wf_frame (heap start ! 0) \<and> columns (heap start ! 1) = columns (heap start ! 0)
             \<and> dtypes (heap start ! 1) = dtypes (heap start ! 0)"
    by (simp add: example_defs wf_frame_def)
  note res = postprocess_augmented_result [OF run]
  have l: "len (heap (start\<lparr>heap := heap start @ [three_rows]\<rparr>) ! 3) = len (heap start ! 1)"
    using res by blast
  have d: "dtypes (heap (start\<lparr>heap := heap start @ [three_rows]\<rparr>) ! 3)
             = dtypes (heap start ! 0)"
    using res hyp by blast
  show ?thesis
    using run hyp l d by blast
qed

text \<open>
  The claim as stated fails on the dtypes: an integer column of \<open>X\<close> comes back as a float
  column when the batch holds floats in it, which is what both samplers produce for the
  continuous columns.
\<close>

theorem postprocess_dtype_counterexample:
  "postprocess_augmented start 2 0
     = (start\<lparr>heap := heap start @ [float_row\<lparr>index := [0]\<rparr>]\<rparr>, 3)
   \<and> dtypes (float_row\<lparr>index := [0]\<rparr>) = [Float64, Object]
   \<and> dtypes (heap start ! 0) = [Int64, Object]
   \<and> dtypes (float_row\<lparr>index := [0]\<rparr>) \<noteq> dtypes (heap start ! 0)"
  by (simp add: example_defs post_defs)


section \<open>A request for zero samples\<close>

lemma initial_batch_zero:
  "rows X \<noteq> [] \<Longrightarrow> initial_batch X (IntN 0) = Inl (ValueError ''No objects to concatenate'')"
  by (cases "rows X") (simp_all add: initial_batch_def iloc_first_def)

lemma initial_batch_zero_fails: "\<exists>e. initial_batch X (IntN 0) = Inl e"
  by (cases "rows X") (simp_all add: initial_batch_def iloc_first_def)

text \<open>
  For a frame that is not empty and a valid \<open>frac_perturb\<close>, the fast sampler asked for zero
  samples raises the \<open>ValueError\<close> of \<^verbatim>\<open>pd.concat\<close> on an empty list, and leaves the state as
  it was.
\<close>

lemma spunge_zero_samples:
  assumes "\<not> py_lt (FloatN 1) fp"
    and "num_feature_perturb_of fp (length (columns (heap st ! X))) = Inr k"
    and "rows (heap st ! X) \<noteq> []"
  shows "spunge_augment env st X ftm (IntN 0) fp noise
           = (st, Inl (ValueError ''No objects to concatenate''))"
  using assms by (simp add: spunge_augment_def initial_batch_zero)

text \<open>Whatever the input, neither sampler returns a batch when asked for zero samples.\<close>

lemma spunge_zero_never_succeeds:
  "\<exists>e. snd (spunge_augment env st X ftm (IntN 0) fp noise) = Inl e"
proof -
  obtain e where "initial_batch (heap st ! X) (IntN 0) = Inl e"
    using initial_batch_zero_fails by blast
  then show ?thesis
    by (auto simp: spunge_augment_def split: sum.splits)
qed

lemma munge_zero_never_succeeds:
  "\<exists>e. snd (munge_augment env st X ftm (IntN 0) p s) = Inl e"
proof -
  obtain e where "initial_batch (heap st ! X) (IntN 0) = Inl e"
    using initial_batch_zero_fails by blast
  then show ?thesis
    by (auto simp: munge_augment_def Let_def alloc_def split: sum.splits)
qed

text \<open>An empty batch, had a sampler returned one, would be post-processed to an empty frame.\<close>

lemma postprocess_empty_batch:
  "len X_aug = 0 \<Longrightarrow> len (postprocess_frame X_aug X) = 0"
  by (simp add: postprocess_len)

text \<open>
  Claim C2 does not hold of the code. On the sample frame of three rows, both samplers
  called with \<open>num_augmented_samples = 0\<close> raise \<open>ValueError\<close>: the list of copies of the first
  row is empty, and \<^verbatim>\<open>pd.concat\<close> refuses an empty list. The same happens through the
  dispatcher.
\<close>

theorem zero_samples_raise:
  "spunge_augment counter_env start 1 int_is_a (IntN 0) frac_perturb_default
       continuous_feature_noise_default
     = (start, Inl (ValueError ''No objects to concatenate''))
   \<and> snd (munge_augment counter_env start 1 int_is_a (IntN 0) perturb_prob_default s_default)
     = Inl (ValueError ''No objects to concatenate'')
   \<and> snd (augment_data counter_env
            (start\<lparr>dicts := [Map.empty, [''num_augmented_samples'' \<mapsto> IntN 0]]\<rparr>)
            1 int_is_a None ''spunge'' 1)
     = Inl (ValueError ''No objects to concatenate'')"
proof -
  have a: "spunge_augment counter_env start 1 int_is_a (IntN 0) frac_perturb_default
             continuous_feature_noise_default
           = (start, Inl (ValueError ''No objects to concatenate''))"
    by (simp add: example_defs sampler_defs)
  have b: "snd (munge_augment counter_env start 1 int_is_a (IntN 0) perturb_prob_default
                  s_default)
           = Inl (ValueError ''No objects to concatenate'')"
    by (simp add: example_defs sampler_defs)
  have c: "snd (augment_data counter_env
                 (start\<lparr>dicts := [Map.empty, [''num_augmented_samples'' \<mapsto> IntN 0]]\<rparr>)
                 1 int_is_a None ''spunge'' 1)
           = Inl (ValueError ''No objects to concatenate'')"
    apply (simp add: augment_data_def)
    apply (simp add: example_defs dispatch_defs)
    apply (simp add: example_defs sampler_defs)
    done
  show ?thesis
    using a b c by blast
qed


section \<open>Where the neighbor-guided sampler fails\<close>

lemma munge_vectorize_error:
  assumes "vectorize env (heap st ! X) ftm = Inl e"
  shows "munge_augment env st X ftm n p s = (st\<lparr>calls := calls st @ [Vectorize]\<rparr>, Inl e)"
  using assms by (simp add: munge_augment_def Let_def)

text \<open>
  Claim C1, as amended. The sampler has no test on the number of rows: it encodes the rows
  and runs the neighbor search on whatever it was given. When the search refuses its
  input, as the library's search does for a single row, the sampler fails with the error of
  the search, after the encoding and the search were called and before anything else: no
  frame is allocated or changed, no random number drawn, no row generated.
\<close>

theorem munge_fails_with_search_error:
  assumes "vectorize env (heap st ! X) ftm = Inr V" and "kneighbors env V = Inl e"
  shows "munge_augment env st X ftm n p s
           = (st\<lparr>calls := calls st @ [Vectorize, KNeighbors]\<rparr>, Inl e)"
  using assms by (simp add: munge_augment_def Let_def)

theorem munge_fails_with_search_error_witness:
  "len (heap start ! 0) = 1
   \<and> vectorize counter_env (heap start ! 0) int_is_a = Inr [[1, 0]]
   \<and> kneighbors counter_env [[1, 0]] = Inl (ValueError ''Expected n_neighbors <= n_samples_fit'')
   \<and> munge_augment counter_env start 0 int_is_a (IntN 4) perturb_prob_default s_default
       = (start\<lparr>calls := calls start @ [Vectorize, KNeighbors]\<rparr>,
          Inl (ValueError ''Expected n_neighbors <= n_samples_fit''))"
proof -
  have v: "vectorize counter_env (heap start ! 0) int_is_a = Inr [[1, 0]]"
    by (simp add: example_defs)
  have k: "kneighbors counter_env [[1, 0]]
             = Inl (ValueError ''Expected n_neighbors <= n_samples_fit'')"
    by (simp add: example_defs)
  have l: "len (heap start ! 0) = 1"
    by (simp add: example_defs len_def)
  show ?thesis
    using munge_fails_with_search_error
            [OF v k, of "IntN 4" perturb_prob_default s_default] v k l
    by simp
qed

text \<open>
  The claim as stated fails: on the frame of one row the neighbor search is called, and the
  error the caller gets is the one the search raised.
\<close>

theorem munge_single_row_counterexample:
  "len (heap start ! 0) = 1
   \<and> munge_augment counter_env start 0 int_is_a (IntN 4) perturb_prob_default s_default
       = (start\<lparr>calls := [Vectorize, KNeighbors]\<rparr>,
          Inl (ValueError ''Expected n_neighbors <= n_samples_fit''))
   \<and> KNeighbors \<in> set (calls (fst (munge_augment counter_env start 0 int_is_a (IntN 4)
                                      perturb_prob_default s_default)))"
  by (simp add: example_defs sampler_defs)

text \<open>
  With a search that answers on a single row, the sampler goes on and returns a batch: the
  failure on one row is the search's, not the sampler's.
\<close>

lemma munge_single_row_without_refusal:
  "snd (munge_augment (counter_env\<lparr>kneighbors := (\<lambda>V. Inr [(0, 0)])\<rparr>) start 0 int_is_a
          (IntN 2) perturb_prob_default s_default) = Inr 4"
  by (simp add: example_defs sampler_defs)

section \<open>A fraction or probability above one\<close>

lemma munge_guard_state:
  assumes "py_lt (FloatN 1) p"
  shows "(\<exists>e. snd (munge_augment env st X ftm n p s) = Inl e)
         \<and> heap (fst (munge_augment env st X ftm n p s)) = heap st
         \<and> gen (fst (munge_augment env st X ftm n p s)) = gen st
         \<and> dicts (fst (munge_augment env st X ftm n p s)) = dicts st"
  using assms by (auto simp: munge_augment_def Let_def split: sum.splits)

text \<open>
  Claim C6, as amended. A \<open>frac_perturb\<close> above one makes the fast sampler raise
  \<open>ValueError\<close> as its first action, the state untouched. A \<open>perturb_prob\<close> above one makes
  the neighbor-guided sampler fail too, with no frame allocated or changed and no random
  number drawn, so no row is generated and no batch returned; but its test comes after the
  encoding and the neighbor search: it raises its \<open>ValueError\<close> once both have returned, and
  an error of either comes first.
\<close>

theorem bad_fraction_rejected:
  assumes "py_lt (FloatN 1) p"
  shows "spunge_augment env st X ftm n p noise
           = (st, Inl (ValueError ''frac_perturb must be <= 1''))
       \<and> (\<exists>e. snd (munge_augment env st X ftm n p s) = Inl e)
       \<and> heap (fst (munge_augment env st X ftm n p s)) = heap st
       \<and> gen (fst (munge_augment env st X ftm n p s)) = gen st
       \<and> dicts (fst (munge_augment env st X ftm n p s)) = dicts st
       \<and> (\<forall>V neigh. vectorize env (heap st ! X) ftm = Inr V \<and> kneighbors env V = Inr neigh
            \<longrightarrow> munge_augment env st X ftm n p s
                  = (st\<lparr>calls := calls st @ [Vectorize, KNeighbors]\<rparr>,
                     Inl (ValueError ''frac_perturb must be <= 1'')))
       \<and> (\<forall>V e. vectorize env (heap st ! X) ftm = Inr V \<and> kneighbors env V = Inl e
            \<longrightarrow> snd (munge_augment env st X ftm n p s) = Inl e)
       \<and> (\<forall>e. vectorize env (heap st ! X) ftm = Inl e
            \<longrightarrow> snd (munge_augment env st X ftm n p s) = Inl e)"
proof -
  have a: "spunge_augment env st X ftm n p noise
             = (st, Inl (ValueError ''frac_perturb must be <= 1''))"
    using assms by (simp add: spunge_augment_def)
  have b: "munge_augment env st X ftm n p s
             = (st\<lparr>calls := calls st @ [Vectorize, KNeighbors]\<rparr>,
                Inl (ValueError ''frac_perturb must be <= 1''))"
    if "vectorize env (heap st ! X) ftm = Inr V" "kneighbors env V = Inr neigh" for V neigh
    using that assms by (simp add: munge_augment_def Let_def)
  have c: "snd (munge_augment env st X ftm n p s) = Inl e"
    if "vectorize env (heap st ! X) ftm = Inr V" "kneighbors env V = Inl e" for V e
    using that by (simp add: munge_augment_def Let_def)
  have d: "snd (munge_augment env st X ftm n p s) = Inl e"
    if "vectorize env (heap st ! X) ftm = Inl e" for e
    using that by (simp add: munge_augment_def Let_def)
  show ?thesis
    using a b c d munge_guard_state [OF assms] by blast
qed

theorem bad_fraction_rejected_witness:
  "py_lt (FloatN 1) (FloatN 2)
   \<and> spunge_augment counter_env start 1 int_is_a (IntN 4) (FloatN 2)
        continuous_feature_noise_default
       = (start, Inl (ValueError ''frac_perturb must be <= 1''))
   \<and> heap (fst (munge_augment counter_env start 1 int_is_a (IntN 4) (FloatN 2) s_default))
       = heap start
   \<and> gen (fst (munge_augment counter_env start 1 int_is_a (IntN 4) (FloatN 2) s_default))
       = gen start"
proof -
  have g: "py_lt (FloatN 1) (FloatN 2)"
    by simp
  show ?thesis
    using bad_fraction_rejected
            [OF g, of counter_env start 1 int_is_a "IntN 4" continuous_feature_noise_default
               s_default] g
    by blast
qed

text \<open>
  The claim as stated fails for the neighbor-guided sampler: with \<open>perturb_prob = 2\<close> on the
  frame of three rows the encoding and the search have been called when the error is
  raised, so the call does not end in the state it started from; and on the frame of one
  row the error raised is the one of the search.
\<close>

theorem munge_late_check_counterexample:
  "\<not> rejected_at_start start
        (munge_augment counter_env start 1 int_is_a (IntN 4) (FloatN 2) s_default)
   \<and> calls (fst (munge_augment counter_env start 1 int_is_a (IntN 4) (FloatN 2) s_default))
       = [Vectorize, KNeighbors]
   \<and> snd (munge_augment counter_env start 0 int_is_a (IntN 4) (FloatN 2) s_default)
       = Inl (ValueError ''Expected n_neighbors <= n_samples_fit'')"
proof -
  have a: "munge_augment counter_env start 1 int_is_a (IntN 4) (FloatN 2) s_default
             = (start\<lparr>calls := [Vectorize, KNeighbors]\<rparr>,
                Inl (ValueError ''frac_perturb must be <= 1''))"
    by (simp add: example_defs sampler_defs)
  have b: "calls start = []"
    by (simp add: start_def)
  have c: "snd (munge_augment counter_env start 0 int_is_a (IntN 4) (FloatN 2) s_default)
             = Inl (ValueError ''Expected n_neighbors <= n_samples_fit'')"
    by (simp add: example_defs sampler_defs)
  have d: "start\<lparr>calls := [Vectorize, KNeighbors]\<rparr> \<noteq> start"
  proof
    assume "start\<lparr>calls := [Vectorize, KNeighbors]\<rparr> = start"
    then have "calls (start\<lparr>calls := [Vectorize, KNeighbors]\<rparr>) = calls start"
      by (rule arg_cong)
    then show False using b by simp
  qed
  show ?thesis
    using a c d by (simp add: rejected_at_start_def)
qed


section \<open>Properties of the label transformer\<close>

lemma smooth_zero: "fl eps = eps \<Longrightarrow> smooth eps 0 = eps"
  by (simp add: smooth_def min_pred_def max_pred_def)

lemma smooth_one: "fl eps = eps \<Longrightarrow> smooth eps 1 = fl (eps + fl (1 - 2 * eps))"
  by (simp add: smooth_def min_pred_def max_pred_def fl_double)

lemma smooth_one_ge:
  assumes "0 \<le> eps" and "eps < 1 / 2" and "fl eps = eps"
  shows "eps \<le> smooth eps 1"
proof -
  have a: "0 \<le> fl (1 - 2 * eps)"
    using assms(2) by (intro fl_nonneg) simp
  show ?thesis
  proof (cases "eps = 0")
    case True
    then show ?thesis using a by (simp add: smooth_one)
  next
    case False
    then have "0 < eps" using assms(1) by simp
    then have "eps \<le> fl (eps + fl (1 - 2 * eps))"
      using assms(3) a by (intro fl_mono_lower) simp_all
    then show ?thesis using assms(3) by (simp add: smooth_one)
  qed
qed

text \<open>
  Claim C4, as amended. For a binary problem and a float \<open>eps\<close> with \<open>0 \<le> eps < 1/2\<close>, every
  label \<open>y\<close> is sent to \<open>eps + ((1 - 2 eps) / (1 - 0)) (y - 0)\<close> as float arithmetic computes it,
  each operation rounding. When the labels are all 0 or 1, every output is at least \<open>eps\<close>,
  a 0 is sent exactly to \<open>eps\<close>, and a 1 is sent to the float nearest to \<open>eps\<close> plus the float
  nearest to \<open>1 - 2 eps\<close>, which need not be \<open>1 - eps\<close> and can exceed it. This holds for the
  training and for the test labels.
\<close>

theorem binary_labels_rescaled:
  assumes "0 \<le> eps" and "eps < 1 / 2" and "fl eps = eps"
    and "set (to_float y_train) \<subseteq> {0, 1}" and "set (to_float y_test) \<subseteq> {0, 1}"
  shows "\<exists>tr te.
           format_distillation_labels y_train y_test BINARY num_classes eps
             = Inr (Labels (FloatSeries tr), Labels (FloatSeries te))
         \<and> tr = map (smooth eps) (to_float y_train)
         \<and> te = map (smooth eps) (to_float y_test)
         \<and> (\<forall>v \<in> set tr \<union> set te. eps \<le> v)
         \<and> (\<forall>i < length tr.
               (to_float y_train ! i = 0 \<longrightarrow> tr ! i = eps)
               \<and> (to_float y_train ! i = 1 \<longrightarrow> tr ! i = fl (eps + fl (1 - 2 * eps))))
         \<and> (\<forall>i < length te.
               (to_float y_test ! i = 0 \<longrightarrow> te ! i = eps)
               \<and> (to_float y_test ! i = 1 \<longrightarrow> te ! i = fl (eps + fl (1 - 2 * eps))))"
proof -
  have b: "eps \<le> smooth eps y" if "y \<in> {0, 1}" for y :: real
    using that smooth_zero [OF assms(3)] smooth_one_ge [OF assms(1,2,3)] by auto
  have tr: "\<forall>v \<in> set (map (smooth eps) (to_float y_train)). eps \<le> v"
    using assms(4) b by auto
  have te: "\<forall>v \<in> set (map (smooth eps) (to_float y_test)). eps \<le> v"
    using assms(5) b by auto
  show ?thesis
    using tr te smooth_zero [OF assms(3)] smooth_one [OF assms(3)]
    by (simp add: ball_Un)
qed

lemma fl_hundredth_bounds: "0 \<le> fl (1 / 100) \<and> fl (1 / 100) < 1 / 2"
proof -
  have q: "fl (1 / 4) = 1 / 4"
    using fl_dyadic [of 1 "- 2"] by (simp add: pow2_def)
  have "fl (1 / 100) \<le> 1 / 4"
    using q by (intro fl_mono_upper) simp_all
  moreover have "0 \<le> fl (1 / 100)"
    by (intro fl_nonneg) simp
  ultimately show ?thesis by simp
qed

theorem binary_labels_rescaled_witness:
  "0 \<le> eps_labelsmooth_default \<and> eps_labelsmooth_default < 1 / 2
   \<and> fl eps_labelsmooth_default = eps_labelsmooth_default
   \<and> set (to_float (IntSeries [0, 1, 1])) \<subseteq> {0, 1}
   \<and> set (to_float (FloatSeries [1, 0])) \<subseteq> {0, 1}
   \<and> format_distillation_labels (IntSeries [0, 1, 1]) (FloatSeries [1, 0]) BINARY None
         eps_labelsmooth_default
       = Inr (Labels (FloatSeries [eps_labelsmooth_default,
                                   smooth eps_labelsmooth_default 1,
                                   smooth eps_labelsmooth_default 1]),
              Labels (FloatSeries [smooth eps_labelsmooth_default 1, eps_labelsmooth_default]))
   \<and> eps_labelsmooth_default \<le> smooth eps_labelsmooth_default 1"
proof -
  have h: "0 \<le> eps_labelsmooth_default" "eps_labelsmooth_default < 1 / 2"
    "fl eps_labelsmooth_default = eps_labelsmooth_default"
    using fl_hundredth_bounds by (simp_all add: eps_labelsmooth_default_def)
  have l: "set (to_float (IntSeries [0, 1, 1])) \<subseteq> {0, 1}"
    "set (to_float (FloatSeries [1, 0])) \<subseteq> {0, 1}"
    by simp_all
  have z: "smooth eps_labelsmooth_default 0 = eps_labelsmooth_default"
    using h(3) by (rule smooth_zero)
  show ?thesis
    using binary_labels_rescaled [OF h l, of None] h l z
    by auto
qed

text \<open>
  The claim as stated fails on the upper bound and on the image of 1. Python's \<open>0.05\<close> is the
  float \<open>7205759403792794 / 2\<^sup>5\<^sup>7\<close>; with it the label 1 is sent to
  \<open>8556839292003943 / 2\<^sup>5\<^sup>3\<close> (printed \<open>0.9500000000000001\<close>), which is above \<open>1 - eps\<close>.
\<close>

lemma fl_twentieth: "fl (5 / 100) = 7205759403792794 / 2 ^ 57"
  using fl_eqI [of "- 5" "5 / 100"]
  by (simp add: pow2_def round_even_def Let_def)

lemma fl_one_minus_tenth:
  "fl (1 - 2 * (7205759403792794 / 2 ^ 57)) = 8106479329266893 / 2 ^ 53"
  using fl_eqI [of "- 1" "1 - 2 * (7205759403792794 / 2 ^ 57)"]
  by (simp add: pow2_def round_even_def Let_def)

lemma fl_sum_095:
  "fl (7205759403792794 / 2 ^ 57 + 8106479329266893 / 2 ^ 53) = 8556839292003943 / 2 ^ 53"
  using fl_eqI [of "- 1" "7205759403792794 / 2 ^ 57 + 8106479329266893 / 2 ^ 53"]
  by (simp add: pow2_def round_even_def Let_def)

theorem binary_label_above_bound:
  "fl (5 / 100) = 7205759403792794 / 2 ^ 57
   \<and> 0 \<le> (7205759403792794 / 2 ^ 57 :: real) \<and> (7205759403792794 / 2 ^ 57 :: real) < 1 / 2
   \<and> format_distillation_labels (IntSeries [1]) (IntSeries [0]) BINARY None
         (7205759403792794 / 2 ^ 57)
       = Inr (Labels (FloatSeries [8556839292003943 / 2 ^ 53]),
              Labels (FloatSeries [7205759403792794 / 2 ^ 57]))
   \<and> (1 - 7205759403792794 / 2 ^ 57 :: real) < 8556839292003943 / 2 ^ 53"
proof -
  have "fl (fl (5 / 100)) = fl (5 / 100)"
    by (rule fl_idem)
  then have e: "fl (7205759403792794 / 2 ^ 57) = 7205759403792794 / 2 ^ 57"
    by (simp only: fl_twentieth)
  have "smooth (7205759403792794 / 2 ^ 57) 1
          = fl (7205759403792794 / 2 ^ 57 + fl (1 - 2 * (7205759403792794 / 2 ^ 57)))"
    using e by (rule smooth_one)
  also have "\<dots> = fl (7205759403792794 / 2 ^ 57 + 8106479329266893 / 2 ^ 53)"
    by (simp only: fl_one_minus_tenth)
  also have "\<dots> = 8556839292003943 / 2 ^ 53"
    by (rule fl_sum_095)
  finally have one: "smooth (7205759403792794 / 2 ^ 57) 1 = 8556839292003943 / 2 ^ 53" .
  have zero: "smooth (7205759403792794 / 2 ^ 57) 0 = 7205759403792794 / 2 ^ 57"
    using e by (rule smooth_zero)
  have "format_distillation_labels (IntSeries [1]) (IntSeries [0]) BINARY None
          (7205759403792794 / 2 ^ 57)
        = Inr (Labels (FloatSeries [smooth (7205759403792794 / 2 ^ 57) 1]),
               Labels (FloatSeries [smooth (7205759403792794 / 2 ^ 57) 0]))"
    by simp
  then have run: "format_distillation_labels (IntSeries [1]) (IntSeries [0]) BINARY None
          (7205759403792794 / 2 ^ 57)
        = Inr (Labels (FloatSeries [8556839292003943 / 2 ^ 53]),
               Labels (FloatSeries [7205759403792794 / 2 ^ 57]))"
    by (simp only: one zero)
  have ineq: "0 \<le> (7205759403792794 / 2 ^ 57 :: real)"
    "(7205759403792794 / 2 ^ 57 :: real) < 1 / 2"
    "(1 - 7205759403792794 / 2 ^ 57 :: real) < 8556839292003943 / 2 ^ 53"
    by simp_all
  show ?thesis
    using fl_twentieth run ineq by (intro conjI)
qed

text \<open>
  Claim C5. A multiclass request without \<open>num_classes\<close> fails: the allocation of the
  one-hot array raises a \<open>TypeError\<close>, for every pair of label series.
\<close>

theorem multiclass_without_num_classes_fails:
  "format_distillation_labels y_train y_test MULTICLASS None eps
     = Inl (TypeError ''NoneType object cannot be interpreted as an integer'')"
  by (cases y_train) simp_all


end
